theory Spec2Isabelle
  imports Main "HOL-Library.Multiset"
begin

section \<open>Data model of \<open>src/app/page.tsx\<close>\<close>

text \<open>
  JavaScript strings are modelled as \<^typ>\<open>string\<close> (one \<^typ>\<open>char\<close> per code unit, so
  \<open>length\<close> is \<open>.length\<close>), JavaScript numbers that hold counts, scores, years and indices as
  \<^typ>\<open>int\<close> or \<^typ>\<open>nat\<close>. The interfaces \<open>Author\<close>, \<open>Article\<close> and \<open>UserPreferences\<close> are records.
  The field \<open>id\<close> of \<open>Article\<close> is called \<open>id_a\<close> (\<open>id\<close> is the identity function of HOL).
\<close>

record Author =
  name :: string

datatype source_tag = semantic | arxiv

record Article =
  id_a :: string
  title :: string
  authors :: "Author list"
  abstract :: string
  url :: string
  year :: int
  source :: source_tag

text \<open>
  \<open>likedTopics\<close> is a JavaScript object used as a dictionary. \<open>Object.entries\<close> lists its
  keys in insertion order (the keys the application writes are the vocabulary terms, none of
  which is an array index), so the object is an association list: the order is the
  insertion order, the first pair of a key is the one that counts.
\<close>

record UserPreferences =
  likedArticles :: "string list"
  savedArticles :: "string list"
  likedTopics :: "(string \<times> int) list"

definition SEARCH_TERMS :: "string list" where
  "SEARCH_TERMS =
     [''science'', ''biology'', ''ai'', ''data'', ''physics'', ''chemistry'', ''technology'',
      ''research'', ''machine learning'', ''neuroscience'', ''mathematics'',
      ''computer science'', ''psychology'', ''medicine'', ''engineering'']"

text \<open>The initial value of the \<open>userPreferences\<close> state (lines 57-61).\<close>

definition defaultPreferences :: UserPreferences where
  "defaultPreferences = \<lparr>likedArticles = [], savedArticles = [], likedTopics = []\<rparr>"

text \<open>
  The component's state: the \<open>useState\<close> cells, the device's \<open>localStorage\<close>, and a log of
  the URLs handed to \<open>fetch\<close> (the only trace the provider leaves in the model).
\<close>

record app =
  articles :: "Article list"
  currentIndex :: int
  loading :: bool
  userPreferences :: UserPreferences
  cache :: "string \<rightharpoonup> Article list"
  usedCacheKeys :: "string set"
  localStorage :: "string \<rightharpoonup> string"
  requests :: "string list"

section \<open>Objects as dictionaries, strings\<close>

text \<open>\<open>obj[k]\<close> read with the fallback \<open>|| 0\<close>: a missing key and the score 0 both give 0.\<close>

definition score :: "(string \<times> int) list \<Rightarrow> string \<Rightarrow> int" where
  "score obj k = (case map_of obj k of None \<Rightarrow> 0 | Some v \<Rightarrow> v)"

text \<open>\<open>obj[k] = v\<close>: an existing key keeps its place, a new key goes to the end.\<close>

fun objSet :: "(string \<times> int) list \<Rightarrow> string \<Rightarrow> int \<Rightarrow> (string \<times> int) list" where
  "objSet [] k v = [(k, v)]"
| "objSet ((k', v') # kvs) k v = (if k' = k then (k, v) # kvs else (k', v') # objSet kvs k v)"

text \<open>
  \<open>String.prototype.toLowerCase\<close> on the letters A to Z; other characters stay. The terms of
  the vocabulary are made of lower-case ASCII letters and spaces.
\<close>

definition lowerChar :: "char \<Rightarrow> char" where
  "lowerChar c =
     (let n = (of_char c :: nat) in if 65 \<le> n \<and> n \<le> 90 then char_of (n + 32) else c)"

definition toLowerCase :: "string \<Rightarrow> string" where
  "toLowerCase s = map lowerChar s"

text \<open>\<open>text.includes(sub)\<close>: \<open>sub\<close> occurs in \<open>text\<close> as a contiguous substring.\<close>

fun includes_str :: "string \<Rightarrow> string \<Rightarrow> bool" where
  "includes_str [] sub = (sub = [])"
| "includes_str (c # cs) sub = (take (length sub) (c # cs) = sub \<or> includes_str cs sub)"

section \<open>Term ranking: \<open>getRecommendedTerms\<close> (lines 82-90)\<close>

text \<open>
  \<open>Object.entries(topicScores).sort(([, a], [, b]) => b - a)\<close>: \<open>Array.prototype.sort\<close> is
  stable, and the comparator orders by descending score, which is the stable sort by the
  negated score.
\<close>

definition getRecommendedTerms :: "UserPreferences \<Rightarrow> string list" where
  "getRecommendedTerms prefs =
     (let topicScores = likedTopics prefs;
          sortedTopics = map fst (take 5 (sort_key (\<lambda>(topic, s). - s) topicScores))
      in if length sortedTopics > 0 then sortedTopics @ SEARCH_TERMS else SEARCH_TERMS)"

section \<open>Likes: \<open>savePreferences\<close> (lines 76-79) and \<open>handleLike\<close> (lines 274-309)\<close>

text \<open>
  \<open>JSON.stringify\<close> is a function of the platform; the operations that persist a value take
  it as the parameter \<open>stringify\<close>. \<open>localStorage.setItem\<close> is taken to succeed.
\<close>

definition savePreferences :: "(UserPreferences \<Rightarrow> string) \<Rightarrow> UserPreferences \<Rightarrow> app \<Rightarrow> app" where
  "savePreferences stringify newPreferences st =
     st\<lparr>userPreferences := newPreferences,
        localStorage := (localStorage st)(''scitok-preferences'' \<mapsto> stringify newPreferences)\<rparr>"

text \<open>The body of \<open>SEARCH_TERMS.forEach\<close> at one term.\<close>

definition likeTerm :: "string \<Rightarrow> (string \<times> int) list \<Rightarrow> string \<Rightarrow> (string \<times> int) list" where
  "likeTerm text newLikedTopics term =
     (if includes_str text (toLowerCase term)
      then objSet newLikedTopics term (score newLikedTopics term + 1)
      else newLikedTopics)"

text \<open>
  \<open>handleLike\<close> at the state whose render created it: the preferences it reads (line 276)
  are the ones it replaces.
\<close>

definition handleLike :: "(UserPreferences \<Rightarrow> string) \<Rightarrow> Article \<Rightarrow> app \<Rightarrow> app" where
  "handleLike stringify article st =
     (let prefs = userPreferences st;
          isLiked = (id_a article \<in> set (likedArticles prefs));
          newLikedArticles =
            (if isLiked then filter (\<lambda>i. i \<noteq> id_a article) (likedArticles prefs)
             else likedArticles prefs @ [id_a article]);
          newLikedTopics =
            (if \<not> isLiked
             then foldl (likeTerm (toLowerCase (title article @ '' '' @ abstract article)))
                    (likedTopics prefs) SEARCH_TERMS
             else likedTopics prefs);
          newPreferences = prefs\<lparr>likedArticles := newLikedArticles, likedTopics := newLikedTopics\<rparr>
      in savePreferences stringify newPreferences st)"

section \<open>Fetching: \<open>fetchArticles\<close> (lines 92-164)\<close>

text \<open>
  One element of \<open>data.data\<close> in the provider's answer (\<open>paper: any\<close>). A field that is
  missing or \<open>null\<close> is \<open>None\<close>.
\<close>

record paper =
  paperId :: "string option"
  paper_title :: "string option"
  paper_authors :: "Author list option"
  paper_abstract :: "string option"
  paper_url :: "string option"
  paper_year :: "int option"

text \<open>
  What \<open>await fetch(url)\<close> followed by \<open>await response.json()\<close> gives: either of them throws
  (\<open>Rejected\<close>), or the body is read and its field \<open>data\<close> is missing (\<open>None\<close>) or is a list
  of papers. Each paper comes with the string that the fallback
  \<open>`${Date.now()}-${Math.random()}`\<close> evaluates to at that paper.
\<close>

datatype response = Rejected | Body "(paper \<times> string) list option"

text \<open>
  What one iteration of the loop draws: \<open>Math.floor(Math.random() * recommendedTerms.length)\<close>,
  \<open>Math.floor(Math.random() * 1000)\<close>, and the provider's answer if it is asked.
\<close>

record draw =
  termIndex :: nat
  offset :: nat
  response :: response

definition maxAttempts :: nat where
  "maxAttempts = 3"

text \<open>A number in a template string: its decimal digits.\<close>

fun string_of_nat :: "nat \<Rightarrow> string" where
  "string_of_nat n =
     (if n < 10 then [char_of (48 + n)]
      else string_of_nat (n div 10) @ [char_of (48 + n mod 10)])"

declare string_of_nat.simps [simp del]

text \<open>\<open>recommendedTerms[i]\<close> in a template string: an index out of range prints \<open>undefined\<close>.\<close>

definition nthTerm :: "string list \<Rightarrow> nat \<Rightarrow> string" where
  "nthTerm recommendedTerms i =
     (if i < length recommendedTerms then recommendedTerms ! i else ''undefined'')"

definition cacheKeyOf :: "string \<Rightarrow> nat \<Rightarrow> string" where
  "cacheKeyOf term off = term @ ''-'' @ string_of_nat off"

definition searchUrl :: "string \<Rightarrow> nat \<Rightarrow> string" where
  "searchUrl term off =
     ''https://api.semanticscholar.org/graph/v1/paper/search?query='' @ term
       @ ''&offset='' @ string_of_nat off
       @ ''&limit=15&fields=title,authors,abstract,url,year,paperId''"

text \<open>The filter of line 127: \<open>paper.abstract && paper.title && paper.abstract.length > 100\<close>.\<close>

definition qualifies :: "paper \<Rightarrow> bool" where
  "qualifies p =
     (case paper_abstract p of
        None \<Rightarrow> False
      | Some a \<Rightarrow> a \<noteq> [] \<and>
          (case paper_title p of None \<Rightarrow> False | Some t \<Rightarrow> t \<noteq> [] \<and> length a > 100))"

text \<open>\<open>x || d\<close> on an optional string: a missing value and the empty string give \<open>d\<close>.\<close>

definition orElse :: "string option \<Rightarrow> string \<Rightarrow> string" where
  "orElse x d = (case x of None \<Rightarrow> d | Some v \<Rightarrow> if v = [] then d else v)"

text \<open>
  The mapping of lines 128-136, at a paper and the value of its fallback id. \<open>title\<close> and
  \<open>abstract\<close> are present on every paper that passed the filter.
\<close>

definition toArticle :: "int \<Rightarrow> paper \<times> string \<Rightarrow> Article" where
  "toArticle currentYear pf =
     (case pf of (p, fallbackId) \<Rightarrow>
       \<lparr>id_a = orElse (paperId p) fallbackId,
        title = (case paper_title p of None \<Rightarrow> [] | Some t \<Rightarrow> t),
        authors = (case paper_authors p of None \<Rightarrow> [] | Some as \<Rightarrow> as),
        abstract = (case paper_abstract p of None \<Rightarrow> [] | Some a \<Rightarrow> a),
        url = orElse (paper_url p) ''#'',
        year = (case paper_year p of None \<Rightarrow> currentYear
                | Some y \<Rightarrow> if y = 0 then currentYear else y),
        source = semantic\<rparr>)"

definition fetchedArticles :: "int \<Rightarrow> (paper \<times> string) list \<Rightarrow> Article list" where
  "fetchedArticles currentYear results =
     map (toArticle currentYear) (filter (\<lambda>pf. qualifies (fst pf)) results)"

text \<open>
  The variables of the loop: \<open>newArticles\<close>, \<open>attempts\<close>, and the component's state as the
  updaters passed to \<open>setCache\<close> and \<open>setUsedCacheKeys\<close> have changed it so far.
\<close>

record loop_vars =
  newArticles :: "Article list"
  attempts :: nat
  updated :: app

datatype flow = Continue | Break

text \<open>
  The body of the \<open>while\<close> loop (lines 104-149). \<open>usedCacheKeys\<close> and \<open>cache\<close> are read from
  the closure of \<open>fetchArticles\<close>, that is from the state \<open>captured\<close> at the render that
  created it; the writes go through updaters to the current state. The platform's
  \<open>JSON.stringify\<close> and the current year are parameters.
\<close>

definition loopBody ::
  "(Article list \<Rightarrow> string) \<Rightarrow> int \<Rightarrow> string list \<Rightarrow> app \<Rightarrow> draw \<Rightarrow> loop_vars \<Rightarrow> flow \<times> loop_vars" where
  "loopBody stringify currentYear recommendedTerms captured d v =
     (let term = nthTerm recommendedTerms (termIndex d);
          cacheKey = cacheKeyOf term (offset d)
      in if cacheKey \<in> usedCacheKeys captured
         then (Continue, v\<lparr>attempts := attempts v + 1\<rparr>)
         else (case cache captured cacheKey of
            Some cachedArticles \<Rightarrow> (Break, v\<lparr>newArticles := cachedArticles\<rparr>)
          | None \<Rightarrow>
             (let st = updated v;
                  asked = st\<lparr>requests := requests st @ [searchUrl term (offset d)]\<rparr>;
                  v1 = v\<lparr>updated := asked\<rparr>
              in case response d of
                   Rejected \<Rightarrow> (Continue, v1\<lparr>attempts := attempts v1 + 1\<rparr>)
                 | Body None \<Rightarrow> (Continue, v1\<lparr>attempts := attempts v1 + 1\<rparr>)
                 | Body (Some results) \<Rightarrow>
                     if length results > 0
                     then (let fetched = fetchedArticles currentYear results
                           in if length fetched > 0
                              then (Continue,
                                    v1\<lparr>newArticles := fetched,
                                       attempts := attempts v1 + 1,
                                       updated := asked
                                         \<lparr>cache := (cache asked)(cacheKey \<mapsto> fetched),
                                          usedCacheKeys := insert cacheKey (usedCacheKeys asked),
                                          localStorage := (localStorage asked)
                                            (''scitok-'' @ cacheKey \<mapsto> stringify fetched)\<rparr>\<rparr>)
                              else (Continue, v1\<lparr>attempts := attempts v1 + 1\<rparr>))
                     else (Continue, v1\<lparr>attempts := attempts v1 + 1\<rparr>))))"

text \<open>An iteration that does not leave the loop has incremented \<open>attempts\<close>.\<close>

lemma loopBody_Continue:
  "loopBody stringify currentYear recommendedTerms captured d v = (Continue, v')
   \<Longrightarrow> attempts v' = attempts v + 1"
  by (auto simp: loopBody_def Let_def split: if_splits option.splits response.splits)

text \<open>
  \<open>while (newArticles.length === 0 && attempts < maxAttempts)\<close>. Every iteration that does
  not leave the loop increments \<open>attempts\<close>, so the iteration that starts with
  \<open>attempts = i\<close> is the one that takes the draw \<open>draws i\<close>.
\<close>

function fetchLoop ::
  "(Article list \<Rightarrow> string) \<Rightarrow> int \<Rightarrow> string list \<Rightarrow> app \<Rightarrow> (nat \<Rightarrow> draw) \<Rightarrow> loop_vars \<Rightarrow> loop_vars" where
  "fetchLoop stringify currentYear recommendedTerms captured draws v =
     (if length (newArticles v) = 0 \<and> attempts v < maxAttempts
      then (case loopBody stringify currentYear recommendedTerms captured (draws (attempts v)) v of
              (Break, v') \<Rightarrow> v'
            | (Continue, v') \<Rightarrow>
                fetchLoop stringify currentYear recommendedTerms captured draws v')
      else v)"
  by pat_completeness auto
termination
  apply (relation "measure (\<lambda>(stringify, currentYear, recommendedTerms, captured, draws, v).
        maxAttempts - attempts v)")
   apply simp
  apply (auto dest!: loopBody_Continue [OF sym])
  done

declare fetchLoop.simps [simp del]

text \<open>The updater passed to \<open>setArticles\<close> (lines 153-157).\<close>

definition appendUnique :: "Article list \<Rightarrow> Article list \<Rightarrow> Article list" where
  "appendUnique prev new =
     (let existingIds = set (map id_a prev);
          uniqueNewArticles = filter (\<lambda>article. id_a article \<notin> existingIds) new
      in prev @ uniqueNewArticles)"

text \<open>Lines 152-163, after the loop: the updater of \<open>setArticles\<close>, then \<open>setLoading(false)\<close>.\<close>

definition finish :: "loop_vars \<Rightarrow> app" where
  "finish v =
     (let st1 = updated v;
          st2 = (if length (newArticles v) > 0
                 then st1\<lparr>articles := appendUnique (articles st1) (newArticles v)\<rparr>
                 else st1)
      in st2\<lparr>loading := False\<rparr>)"

text \<open>
  A call of \<open>fetchArticles\<close> that runs from its first line to its last state update with no
  other update in between. The function is a closure: \<open>loading\<close>, \<open>cache\<close>, \<open>usedCacheKeys\<close>
  and the preferences behind \<open>getRecommendedTerms\<close> are those of the state \<open>captured\<close> by the
  render that created it; its updates apply to the current state \<open>st\<close>.
\<close>

definition fetchArticles ::
  "(Article list \<Rightarrow> string) \<Rightarrow> int \<Rightarrow> app \<Rightarrow> (nat \<Rightarrow> draw) \<Rightarrow> app \<Rightarrow> app" where
  "fetchArticles stringify currentYear captured draws st =
     (if loading captured then st
      else (let recommendedTerms = getRecommendedTerms (userPreferences captured)
            in finish (fetchLoop stringify currentYear recommendedTerms captured draws
                 \<lparr>newArticles = [], attempts = 0, updated = st\<lparr>loading := True\<rparr>\<rparr>)))"

subsection \<open>A call in steps\<close>

text \<open>
  \<open>fetchArticles\<close> is \<open>async\<close>: at \<open>await fetch(url)\<close> (line 122) the call is suspended and
  other handlers, and other calls, run before the answer arrives. An iteration reaches
  that line when the key it drew is neither in the closure's \<open>usedCacheKeys\<close> nor in the
  closure's \<open>cache\<close>.
\<close>

definition awaits :: "string list \<Rightarrow> app \<Rightarrow> draw \<Rightarrow> bool" where
  "awaits recommendedTerms captured d =
     (let cacheKey = cacheKeyOf (nthTerm recommendedTerms (termIndex d)) (offset d)
      in cacheKey \<notin> usedCacheKeys captured \<and> cache captured cacheKey = None)"

text \<open>
  The loop from its test up to the next suspension. The result is the current state with,
  for a suspended call, the value of \<open>attempts\<close> (\<open>newArticles\<close> is empty then), and \<open>None\<close>
  for a call that has ended.
\<close>

function advance ::
  "(Article list \<Rightarrow> string) \<Rightarrow> int \<Rightarrow> string list \<Rightarrow> app \<Rightarrow> (nat \<Rightarrow> draw) \<Rightarrow> loop_vars
     \<Rightarrow> nat option \<times> app" where
  "advance stringify currentYear recommendedTerms captured draws v =
     (if length (newArticles v) = 0 \<and> attempts v < maxAttempts
      then (if awaits recommendedTerms captured (draws (attempts v))
            then (Some (attempts v), updated v)
            else (case loopBody stringify currentYear recommendedTerms captured
                         (draws (attempts v)) v of
                    (Break, v') \<Rightarrow> (None, finish v')
                  | (Continue, v') \<Rightarrow>
                      advance stringify currentYear recommendedTerms captured draws v'))
      else (None, finish v))"
  by pat_completeness auto
termination
  apply (relation "measure (\<lambda>(stringify, currentYear, recommendedTerms, captured, draws, v).
        maxAttempts - attempts v)")
   apply simp
  apply (auto dest!: loopBody_Continue [OF sym])
  done

declare advance.simps [simp del]

text \<open>A suspended call: its closure, its draws, and its \<open>attempts\<close>.\<close>

record suspended =
  call_closure :: app
  call_draws :: "nat \<Rightarrow> draw"
  call_attempts :: nat

text \<open>
  The answer of the provider arrives: the rest of the suspended iteration (the URL enters
  the log of requests here, with the answer), then the loop up to the next suspension.
\<close>

definition respond ::
  "(Article list \<Rightarrow> string) \<Rightarrow> int \<Rightarrow> suspended \<Rightarrow> app \<Rightarrow> nat option \<times> app" where
  "respond stringify currentYear c st =
     (let captured = call_closure c;
          recommendedTerms = getRecommendedTerms (userPreferences captured);
          v = \<lparr>newArticles = [], attempts = call_attempts c, updated = st\<rparr>
      in case loopBody stringify currentYear recommendedTerms captured
                (call_draws c (call_attempts c)) v of
           (Break, v') \<Rightarrow> (None, finish v')
         | (Continue, v') \<Rightarrow>
             advance stringify currentYear recommendedTerms captured (call_draws c) v')"

text \<open>
  The first lines of a call (93-101) and its loop up to the first suspension. A call that
  passes the guard of line 93 is suspended (\<open>Some\<close>) or has ended.
\<close>

definition callFetchArticles ::
  "(Article list \<Rightarrow> string) \<Rightarrow> int \<Rightarrow> app \<Rightarrow> (nat \<Rightarrow> draw) \<Rightarrow> app \<Rightarrow> nat option \<times> app" where
  "callFetchArticles stringify currentYear captured draws st =
     (if loading captured then (None, st)
      else advance stringify currentYear (getRecommendedTerms (userPreferences captured))
             captured draws \<lparr>newArticles = [], attempts = 0, updated = st\<lparr>loading := True\<rparr>\<rparr>)"

text \<open>A call answered until it ends; \<open>n\<close> bounds the number of answers.\<close>

fun complete ::
  "(Article list \<Rightarrow> string) \<Rightarrow> int \<Rightarrow> app \<Rightarrow> (nat \<Rightarrow> draw) \<Rightarrow> nat \<Rightarrow> nat option \<times> app \<Rightarrow> app" where
  "complete stringify currentYear captured draws n (None, st) = st"
| "complete stringify currentYear captured draws 0 (Some i, st) = st"
| "complete stringify currentYear captured draws (Suc n) (Some i, st) =
     complete stringify currentYear captured draws n
       (respond stringify currentYear
          \<lparr>call_closure = captured, call_draws = draws, call_attempts = i\<rparr> st)"

section \<open>The buffer-low effect (lines 172-176)\<close>

text \<open>An effect is modelled by the calls its body makes when it runs.\<close>

datatype call = FetchArticles

definition bufferLowEffect :: "app \<Rightarrow> call list" where
  "bufferLowEffect st =
     (if int (length (articles st)) - currentIndex st \<le> 3 \<and> \<not> loading st
      then [FetchArticles] else [])"

text \<open>The quantity the specification calls \<open>remaining\<close>.\<close>

definition remaining :: "app \<Rightarrow> int" where
  "remaining st = int (length (articles st)) - 1 - currentIndex st"

section \<open>The component between renders (lines 179-254, 372-382, 167-176)\<close>

text \<open>
  A handler is a closure of the render that created it: it reads the \<open>currentIndex\<close>,
  \<open>articles\<close> and \<open>loading\<close> of that render, while an updater such as
  \<open>setCurrentIndex((prev) => prev + 1)\<close> applies to the latest state. The component is
  therefore two states, the \<open>current\<close> one and the one last \<open>rendered\<close>, the closure
  variables of the scroll effect, and the calls of \<open>fetchArticles\<close> that are suspended.

  The scroll effect declares \<open>isProcessing\<close> and \<open>touchStartY\<close> in its body, so every run of
  the effect (one per render that changed \<open>currentIndex\<close> or \<open>articles.length\<close>) has fresh
  ones. \<open>effectRun\<close> numbers the runs: a timer set by the handlers of one run resets the
  \<open>isProcessing\<close> of that run only.
\<close>

record scroll =
  isProcessing :: bool
  touchStartY :: int
  effectRun :: nat

record system =
  current :: app
  rendered :: app
  handlers :: scroll
  running :: "suspended list"

text \<open>
  What happens to the component: an input, the callback of a timer, a render, a run of the
  buffer-low effect after a render (with the draws of the call it may make), or the answer
  of the provider to the suspended call of the given position.
\<close>

datatype event =
    Wheel int
  | KeyDown string
  | TouchStart int
  | TouchEnd int
  | Timeout nat
  | GoToNext
  | GoToPrevious
  | Render
  | BufferLow "nat \<Rightarrow> draw"
  | Respond nat

definition increment :: "app \<Rightarrow> app" where
  "increment st = st\<lparr>currentIndex := currentIndex st + 1\<rparr>"

definition decrement :: "app \<Rightarrow> app" where
  "decrement st = st\<lparr>currentIndex := currentIndex st - 1\<rparr>"

definition handleWheel :: "int \<Rightarrow> system \<Rightarrow> system" where
  "handleWheel deltaY sys =
     (if isProcessing (handlers sys) then sys
      else sys\<lparr>current :=
                 (if deltaY > 0
                     \<and> currentIndex (rendered sys) < int (length (articles (rendered sys))) - 1
                  then increment (current sys)
                  else if deltaY < 0 \<and> currentIndex (rendered sys) > 0
                  then decrement (current sys)
                  else current sys),
               handlers := (handlers sys)\<lparr>isProcessing := True\<rparr>\<rparr>)"

definition handleKeyDown :: "string \<Rightarrow> system \<Rightarrow> system" where
  "handleKeyDown key sys =
     (if isProcessing (handlers sys) then sys
      else sys\<lparr>current :=
                 (if key = ''ArrowDown''
                     \<and> currentIndex (rendered sys) < int (length (articles (rendered sys))) - 1
                  then increment (current sys)
                  else if key = ''ArrowUp'' \<and> currentIndex (rendered sys) > 0
                  then decrement (current sys)
                  else current sys),
               handlers := (handlers sys)\<lparr>isProcessing := True\<rparr>\<rparr>)"

definition handleTouchStart :: "int \<Rightarrow> system \<Rightarrow> system" where
  "handleTouchStart clientY sys = sys\<lparr>handlers := (handlers sys)\<lparr>touchStartY := clientY\<rparr>\<rparr>"

definition handleTouchEnd :: "int \<Rightarrow> system \<Rightarrow> system" where
  "handleTouchEnd touchEndY sys =
     (if isProcessing (handlers sys) then sys
      else (let diff = touchStartY (handlers sys) - touchEndY
            in if \<bar>diff\<bar> > 50
               then sys\<lparr>current :=
                          (if diff > 0
                              \<and> currentIndex (rendered sys)
                                  < int (length (articles (rendered sys))) - 1
                           then increment (current sys)
                           else if diff < 0 \<and> currentIndex (rendered sys) > 0
                           then decrement (current sys)
                           else current sys),
                        handlers := (handlers sys)\<lparr>isProcessing := True\<rparr>\<rparr>
               else sys))"

text \<open>The buttons: no cooldown (lines 372-382).\<close>

definition goToNext :: "system \<Rightarrow> system" where
  "goToNext sys =
     (if currentIndex (rendered sys) < int (length (articles (rendered sys))) - 1
      then sys\<lparr>current := increment (current sys)\<rparr> else sys)"

definition goToPrevious :: "system \<Rightarrow> system" where
  "goToPrevious sys =
     (if currentIndex (rendered sys) > 0
      then sys\<lparr>current := decrement (current sys)\<rparr> else sys)"

text \<open>The callback of \<open>setTimeout\<close>, set by a handler of the effect's run \<open>r\<close>.\<close>

definition timeout :: "nat \<Rightarrow> system \<Rightarrow> system" where
  "timeout r sys =
     (if r = effectRun (handlers sys)
      then sys\<lparr>handlers := (handlers sys)\<lparr>isProcessing := False\<rparr>\<rparr> else sys)"

text \<open>
  A render: the closures created from now on read the current state, and the scroll effect
  runs again when \<open>currentIndex\<close> or \<open>articles.length\<close> differ from the last render's.
\<close>

definition render :: "system \<Rightarrow> system" where
  "render sys =
     (let before = rendered sys; now = current sys
      in sys\<lparr>rendered := now,
             handlers :=
               (if currentIndex now \<noteq> currentIndex before
                   \<or> length (articles now) \<noteq> length (articles before)
                then \<lparr>isProcessing = False, touchStartY = 0,
                      effectRun = effectRun (handlers sys) + 1\<rparr>
                else handlers sys)\<rparr>)"

text \<open>A call of \<open>fetchArticles()\<close> made by a closure of the last render.\<close>

definition startCall ::
  "(Article list \<Rightarrow> string) \<Rightarrow> int \<Rightarrow> (nat \<Rightarrow> draw) \<Rightarrow> system \<Rightarrow> system" where
  "startCall stringify currentYear draws sys =
     (case callFetchArticles stringify currentYear (rendered sys) draws (current sys) of
        (None, st) \<Rightarrow> sys\<lparr>current := st\<rparr>
      | (Some i, st) \<Rightarrow>
          sys\<lparr>current := st,
              running := running sys
                @ [\<lparr>call_closure = rendered sys, call_draws = draws, call_attempts = i\<rparr>]\<rparr>)"

text \<open>
  The body of the buffer-low effect, with the values of the last render. React runs it
  after a render that changed one of its dependencies; here it may run after any render.
\<close>

definition runBufferLowEffect ::
  "(Article list \<Rightarrow> string) \<Rightarrow> int \<Rightarrow> (nat \<Rightarrow> draw) \<Rightarrow> system \<Rightarrow> system" where
  "runBufferLowEffect stringify currentYear draws sys =
     (if FetchArticles \<in> set (bufferLowEffect (rendered sys))
      then startCall stringify currentYear draws sys else sys)"

text \<open>The answer to the suspended call at position \<open>n\<close>.\<close>

definition respondAt ::
  "(Article list \<Rightarrow> string) \<Rightarrow> int \<Rightarrow> nat \<Rightarrow> system \<Rightarrow> system" where
  "respondAt stringify currentYear n sys =
     (if n < length (running sys)
      then (let c = running sys ! n
            in case respond stringify currentYear c (current sys) of
                 (None, st) \<Rightarrow>
                   sys\<lparr>current := st,
                       running := take n (running sys) @ drop (Suc n) (running sys)\<rparr>
               | (Some i, st) \<Rightarrow>
                   sys\<lparr>current := st,
                       running := (running sys)[n := c\<lparr>call_attempts := i\<rparr>]\<rparr>)
      else sys)"

definition step :: "(Article list \<Rightarrow> string) \<Rightarrow> int \<Rightarrow> event \<Rightarrow> system \<Rightarrow> system" where
  "step stringify currentYear e sys =
     (case e of
        Wheel deltaY \<Rightarrow> handleWheel deltaY sys
      | KeyDown key \<Rightarrow> handleKeyDown key sys
      | TouchStart y \<Rightarrow> handleTouchStart y sys
      | TouchEnd y \<Rightarrow> handleTouchEnd y sys
      | Timeout r \<Rightarrow> timeout r sys
      | GoToNext \<Rightarrow> goToNext sys
      | GoToPrevious \<Rightarrow> goToPrevious sys
      | Render \<Rightarrow> render sys
      | BufferLow draws \<Rightarrow> runBufferLowEffect stringify currentYear draws sys
      | Respond n \<Rightarrow> respondAt stringify currentYear n sys)"

fun run :: "(Article list \<Rightarrow> string) \<Rightarrow> int \<Rightarrow> event list \<Rightarrow> system \<Rightarrow> system" where
  "run stringify currentYear [] sys = sys"
| "run stringify currentYear (e # es) sys =
     run stringify currentYear es (step stringify currentYear e sys)"

text \<open>The initial values of the \<open>useState\<close> cells, on a device with the given storage.\<close>

definition initialApp :: "(string \<rightharpoonup> string) \<Rightarrow> app" where
  "initialApp storage =
     \<lparr>articles = [], currentIndex = 0, loading = False, userPreferences = defaultPreferences,
      cache = Map.empty, usedCacheKeys = {}, localStorage = storage, requests = []\<rparr>"

definition initialScroll :: scroll where
  "initialScroll = \<lparr>isProcessing = False, touchStartY = 0, effectRun = 0\<rparr>"

definition inBounds :: "app \<Rightarrow> bool" where
  "inBounds st =
     (0 \<le> currentIndex st \<and> currentIndex st \<le> max 0 (int (length (articles st)) - 1))"

section \<open>Reading the storage (lines 68-73 and 384-391)\<close>

text \<open>
  \<open>JSON.parse\<close> is a function of the platform and a parameter here: it throws a
  \<open>SyntaxError\<close> (\<open>Inl\<close>) or returns the parsed value (\<open>Inr\<close>). Neither reader has a
  \<open>try\<close> around it.
\<close>

datatype js_error = SyntaxError

definition loadPreferences :: "(string \<Rightarrow> js_error + UserPreferences) \<Rightarrow> app \<Rightarrow> js_error + app" where
  "loadPreferences parse st =
     (case localStorage st ''scitok-preferences'' of
        None \<Rightarrow> Inr st
      | Some saved \<Rightarrow>
          if saved = [] then Inr st
          else (case parse saved of
                  Inl e \<Rightarrow> Inl e
                | Inr prefs \<Rightarrow> Inr (st\<lparr>userPreferences := prefs\<rparr>)))"

text \<open>
  The callback of \<open>.map\<close> in \<open>getSavedArticles\<close>. The parsed value is \<open>None\<close> when it is
  falsy (JSON \<open>null\<close>, for one), as is the \<open>null\<close> given for a missing snapshot.
\<close>

definition savedSnapshot ::
  "(string \<Rightarrow> js_error + Article option) \<Rightarrow> (string \<rightharpoonup> string) \<Rightarrow> string \<Rightarrow> js_error + Article option" where
  "savedSnapshot parse storage i =
     (case storage (''scitok-saved-'' @ i) of
        None \<Rightarrow> Inr None
      | Some saved \<Rightarrow> if saved = [] then Inr None else parse saved)"

text \<open>\<open>.map\<close> with a callback that may throw: the first exception ends it.\<close>

fun mapThrowing :: "('a \<Rightarrow> js_error + 'b) \<Rightarrow> 'a list \<Rightarrow> js_error + 'b list" where
  "mapThrowing f [] = Inr []"
| "mapThrowing f (x # xs) =
     (case f x of
        Inl e \<Rightarrow> Inl e
      | Inr y \<Rightarrow> (case mapThrowing f xs of Inl e \<Rightarrow> Inl e | Inr ys \<Rightarrow> Inr (y # ys)))"

text \<open>\<open>.filter(Boolean)\<close>.\<close>

fun filterBoolean :: "'a option list \<Rightarrow> 'a list" where
  "filterBoolean [] = []"
| "filterBoolean (None # xs) = filterBoolean xs"
| "filterBoolean (Some x # xs) = x # filterBoolean xs"

definition getSavedArticles ::
  "(string \<Rightarrow> js_error + Article option) \<Rightarrow> app \<Rightarrow> js_error + Article list" where
  "getSavedArticles parse st =
     (case mapThrowing (savedSnapshot parse (localStorage st)) (savedArticles (userPreferences st)) of
        Inl e \<Rightarrow> Inl e
      | Inr xs \<Rightarrow> Inr (filterBoolean xs))"

section \<open>Mounting (lines 68-73, 167-169, 172-176)\<close>

text \<open>
  The effects of the first render, in the order of the source, all closures of that render:
  the preferences are loaded, \<open>fetchArticles()\<close> is called (line 168), and the buffer-low
  effect runs (line 173). \<open>draws1\<close> and \<open>draws2\<close> are the draws of the two calls. The
  effects of the display mode (lines 257-271) are left out.
\<close>

definition mount ::
  "(string \<Rightarrow> js_error + UserPreferences) \<Rightarrow> (Article list \<Rightarrow> string) \<Rightarrow> int
     \<Rightarrow> (string \<rightharpoonup> string) \<Rightarrow> (nat \<Rightarrow> draw) \<Rightarrow> (nat \<Rightarrow> draw) \<Rightarrow> js_error + system" where
  "mount parse stringify currentYear storage draws1 draws2 =
     (case loadPreferences parse (initialApp storage) of
        Inl e \<Rightarrow> Inl e
      | Inr st \<Rightarrow>
          Inr (runBufferLowEffect stringify currentYear draws2
                 (startCall stringify currentYear draws1
                    \<lparr>current = st, rendered = initialApp storage, handlers = initialScroll,
                     running = []\<rparr>)))"

text \<open>Every key of the cache is in the used-key set.\<close>

definition cachedAreUsed :: "app \<Rightarrow> bool" where
  "cachedAreUsed st = (dom (cache st) \<subseteq> usedCacheKeys st)"


section \<open>Example inputs\<close>

definition ex_stringify :: "UserPreferences \<Rightarrow> string" where
  "ex_stringify prefs = ''{}''"

definition ex_app :: app where
  "ex_app = initialApp Map.empty"

definition ex_article :: Article where
  "ex_article =
     \<lparr>id_a = ''p1'', title = ''AI and Data'', authors = [], abstract = ''Bioscience'',
      url = ''#'', year = 2024, source = semantic\<rparr>"

definition ex_prefs :: UserPreferences where
  "ex_prefs =
     \<lparr>likedArticles = [], savedArticles = [], likedTopics = [(''ai'', 3), (''biology'', 1)]\<rparr>"

definition ex_stringifyArticles :: "Article list \<Rightarrow> string" where
  "ex_stringifyArticles as = ''[]''"

text \<open>A paper with the given id and an abstract of \<open>n\<close> characters.\<close>

definition ex_paper :: "string \<Rightarrow> nat \<Rightarrow> paper" where
  "ex_paper i n =
     \<lparr>paperId = Some i, paper_title = Some ''A title'', paper_authors = None,
      paper_abstract = Some (replicate n (CHR ''a'')), paper_url = None, paper_year = None\<rparr>"

text \<open>Draws that pick the term \<open>ai\<close> and the offset 7 at every iteration.\<close>

definition ex_draws :: "response \<Rightarrow> nat \<Rightarrow> draw" where
  "ex_draws r i = \<lparr>termIndex = 2, offset = 7, response = r\<rparr>"


definition ex_repeating :: response where
  "ex_repeating = Body (Some [(ex_paper ''p1'' 101, ''f1''), (ex_paper ''p1'' 101, ''f2'')])"

text \<open>An abstract under 100 characters, the wording of the scenario.\<close>

definition shortAbstract :: "paper \<Rightarrow> bool" where
  "shortAbstract p = (case paper_abstract p of None \<Rightarrow> False | Some a \<Rightarrow> length a < 100)"

definition ex_five :: "(paper \<times> string) list" where
  "ex_five =
     [(ex_paper ''p1'' 101, ''f1''), (ex_paper ''p2'' 50, ''f2''), (ex_paper ''p3'' 150, ''f3''),
      (ex_paper ''p4'' 99, ''f4''), (ex_paper ''p5'' 200, ''f5'')]"

text \<open>A buffer of \<open>n\<close> articles with the ids of \<open>ex_paper\<close>, shown at the index \<open>i\<close>.\<close>

definition ex_buffer :: "nat \<Rightarrow> int \<Rightarrow> bool \<Rightarrow> app" where
  "ex_buffer n i busy =
     (initialApp Map.empty)
       \<lparr>articles := map (\<lambda>k. toArticle 2026 (ex_paper (string_of_nat k) 101, ''f'')) [0..<n],
        currentIndex := i, loading := busy\<rparr>"

definition ex_reject :: "string \<Rightarrow> js_error + 'a" where
  "ex_reject s = Inl SyntaxError"

definition ex_bad_prefs :: app where
  "ex_bad_prefs = initialApp [''scitok-preferences'' \<mapsto> ''{oops'']"

definition ex_bad_snapshot :: app where
  "ex_bad_snapshot =
     (initialApp [''scitok-saved-p1'' \<mapsto> ''{oops''])
       \<lparr>userPreferences := defaultPreferences\<lparr>savedArticles := [''p1'']\<rparr>\<rparr>"

definition ex_missing_snapshot :: app where
  "ex_missing_snapshot =
     (initialApp Map.empty)\<lparr>userPreferences := defaultPreferences\<lparr>savedArticles := [''p1'']\<rparr>\<rparr>"

text \<open>An article whose title and abstract, put together without a space, contain \<open>data\<close>.\<close>

definition ex_split_article :: Article where
  "ex_split_article =
     \<lparr>id_a = ''p2'', title = ''Dat'', authors = [], abstract = ''a'', url = ''#'', year = 2024,
      source = semantic\<rparr>"

text \<open>An answer with one qualifying paper of the given id.\<close>

definition ex_one :: "string \<Rightarrow> response" where
  "ex_one i = Body (Some [(ex_paper i 101, ''f'')])"

text \<open>Draws whose first attempt fails on \<open>science-1\<close> and whose later attempts get \<open>r\<close> on \<open>ai-7\<close>.\<close>

definition ex_late :: "response \<Rightarrow> nat \<Rightarrow> draw" where
  "ex_late r i =
     (if i = 0 then \<lparr>termIndex = 0, offset = 1, response = Rejected\<rparr>
      else \<lparr>termIndex = 2, offset = 7, response = r\<rparr>)"

text \<open>A component that has rendered a buffer of 6 articles at the index 4.\<close>

definition ex_shown :: system where
  "ex_shown =
     \<lparr>current = ex_buffer 6 4 False, rendered = ex_buffer 6 4 False, handlers = initialScroll,
      running = []\<rparr>"

text \<open>The component after mounting on an empty storage, with the draws of its two calls.\<close>

definition ex_mounted :: "(nat \<Rightarrow> draw) \<Rightarrow> (nat \<Rightarrow> draw) \<Rightarrow> system" where
  "ex_mounted draws1 draws2 =
     projr (mount ex_reject ex_stringifyArticles 2026 Map.empty draws1 draws2)"

text \<open>Draws on \<open>ai-7\<close> whose first answer is a failure and whose later answers are \<open>ex_five\<close>.\<close>

definition ex_second :: "nat \<Rightarrow> draw" where
  "ex_second i =
     (if i = 0 then \<lparr>termIndex = 2, offset = 7, response = Rejected\<rparr>
      else \<lparr>termIndex = 2, offset = 7, response = Body (Some ex_five)\<rparr>)"


section \<open>Properties of the term ranking\<close>

lemma length_SEARCH_TERMS: "length SEARCH_TERMS = 15"
  by (simp add: SEARCH_TERMS_def)

lemma distinct_SEARCH_TERMS: "distinct SEARCH_TERMS"
  by (simp add: SEARCH_TERMS_def)

lemma sorted_desc_sort_key:
  "sorted_wrt (\<lambda>a b. snd b \<le> snd a) (sort_key (\<lambda>(topic, s). - s) (kvs :: (string \<times> int) list))"
proof -
  have "sorted (map (\<lambda>(topic, s). - s) (sort_key (\<lambda>(topic, s). - s) kvs))"
    by (rule sorted_sort_key)
  then show ?thesis
    by (simp add: sorted_map case_prod_beta)
qed

text \<open>
  C9. With no liked topics, \<open>getRecommendedTerms\<close> is the 15-term default vocabulary in its
  fixed order. When some topic has a positive score, it is the first five topics of the
  liked topics ranked by descending score, followed by the whole default vocabulary,
  duplicates kept; for the scores \<open>{"ai": 3, "biology": 1}\<close> the list begins with \<open>ai\<close>,
  \<open>biology\<close> and goes on with the default vocabulary.
\<close>

theorem rankedTerms_spec:
  "(likedTopics prefs = [] \<longrightarrow> getRecommendedTerms prefs = SEARCH_TERMS)
   \<and> length SEARCH_TERMS = 15
   \<and> ((\<exists>e \<in> set (likedTopics prefs). 0 < snd e) \<longrightarrow>
        (\<exists>ranked. mset ranked = mset (likedTopics prefs)
           \<and> sorted_wrt (\<lambda>a b. snd b \<le> snd a) ranked
           \<and> getRecommendedTerms prefs = map fst (take 5 ranked) @ SEARCH_TERMS))
   \<and> getRecommendedTerms
        \<lparr>likedArticles = la, savedArticles = sa, likedTopics = [(''ai'', 3), (''biology'', 1)]\<rparr>
       = ''ai'' # ''biology'' # SEARCH_TERMS"
proof (intro conjI impI)
  show "getRecommendedTerms prefs = SEARCH_TERMS" if "likedTopics prefs = []"
    using that by (simp add: getRecommendedTerms_def)
  show "length SEARCH_TERMS = 15" by (rule length_SEARCH_TERMS)
  show "\<exists>ranked. mset ranked = mset (likedTopics prefs)
           \<and> sorted_wrt (\<lambda>a b. snd b \<le> snd a) ranked
           \<and> getRecommendedTerms prefs = map fst (take 5 ranked) @ SEARCH_TERMS"
    if pos: "\<exists>e \<in> set (likedTopics prefs). 0 < snd e"
  proof -
    let ?r = "sort_key (\<lambda>(topic, s). - s) (likedTopics prefs)"
    from pos have "likedTopics prefs \<noteq> []" by auto
    then have "?r \<noteq> []" by (metis length_0_conv length_sort)
    then have "getRecommendedTerms prefs = map fst (take 5 ?r) @ SEARCH_TERMS"
      by (simp add: getRecommendedTerms_def Let_def)
    moreover have "mset ?r = mset (likedTopics prefs)" by simp
    ultimately show ?thesis using sorted_desc_sort_key by blast
  qed
  show "getRecommendedTerms
        \<lparr>likedArticles = la, savedArticles = sa, likedTopics = [(''ai'', 3), (''biology'', 1)]\<rparr>
       = ''ai'' # ''biology'' # SEARCH_TERMS"
    by (simp add: getRecommendedTerms_def)
qed

theorem rankedTerms_spec_witness:
  "likedTopics defaultPreferences = []
   \<and> getRecommendedTerms defaultPreferences = SEARCH_TERMS
   \<and> (\<exists>e \<in> set (likedTopics ex_prefs). 0 < snd e)
   \<and> (\<exists>ranked. mset ranked = mset (likedTopics ex_prefs)
         \<and> sorted_wrt (\<lambda>a b. snd b \<le> snd a) ranked
         \<and> getRecommendedTerms ex_prefs = map fst (take 5 ranked) @ SEARCH_TERMS)"
proof -
  have none: "likedTopics defaultPreferences = []"
    by (simp add: defaultPreferences_def)
  have some: "\<exists>e \<in> set (likedTopics ex_prefs). 0 < snd e"
    by (simp add: ex_prefs_def)
  from rankedTerms_spec [of defaultPreferences] none
  have "getRecommendedTerms defaultPreferences = SEARCH_TERMS"
    by simp
  moreover from rankedTerms_spec [of ex_prefs] some
  have "\<exists>ranked. mset ranked = mset (likedTopics ex_prefs)
         \<and> sorted_wrt (\<lambda>a b. snd b \<le> snd a) ranked
         \<and> getRecommendedTerms ex_prefs = map fst (take 5 ranked) @ SEARCH_TERMS"
    by blast
  ultimately show ?thesis using none some by blast
qed

section \<open>Properties of likes\<close>

lemma score_objSet: "score (objSet obj k v) k' = (if k' = k then v else score obj k')"
  by (induction obj k v rule: objSet.induct) (auto simp: score_def)

lemma score_likeTerm:
  "score (likeTerm text obj term) t =
     score obj t + (if t = term \<and> includes_str text (toLowerCase term) then 1 else 0)"
  by (simp add: likeTerm_def score_objSet)

lemma score_foldl_likeTerm:
  "distinct terms \<Longrightarrow>
   score (foldl (likeTerm text) obj terms) t =
     score obj t + (if t \<in> set terms \<and> includes_str text (toLowerCase t) then 1 else 0)"
proof (induction terms arbitrary: obj)
  case Nil
  then show ?case by simp
next
  case (Cons tm terms)
  then show ?case by (auto simp: score_likeTerm)
qed

lemma userPreferences_savePreferences:
  "userPreferences (savePreferences stringify p st) = p"
  by (simp add: savePreferences_def)

lemma likedArticles_handleLike:
  "likedArticles (userPreferences (handleLike stringify article st)) =
     (if id_a article \<in> set (likedArticles (userPreferences st))
      then filter (\<lambda>i. i \<noteq> id_a article) (likedArticles (userPreferences st))
      else likedArticles (userPreferences st) @ [id_a article])"
  by (simp add: handleLike_def Let_def userPreferences_savePreferences)

lemma likedTopics_handleLike:
  "likedTopics (userPreferences (handleLike stringify article st)) =
     (if id_a article \<in> set (likedArticles (userPreferences st))
      then likedTopics (userPreferences st)
      else foldl (likeTerm (toLowerCase (title article @ '' '' @ abstract article)))
             (likedTopics (userPreferences st)) SEARCH_TERMS)"
  by (simp add: handleLike_def Let_def userPreferences_savePreferences)

text \<open>
  C6, evaluated on an article with the title \<open>Dat\<close> and the abstract \<open>a\<close>, not liked before:
  \<open>data\<close> is a substring of the title followed by the abstract, and the like leaves its
  score at 0, because the text the code searches has a space between the two.
\<close>

theorem like_text_has_space:
  "id_a ex_split_article \<notin> set (likedArticles (userPreferences ex_app))
   \<and> ''data'' \<in> set SEARCH_TERMS
   \<and> includes_str (toLowerCase (title ex_split_article @ abstract ex_split_article))
        (toLowerCase ''data'')
   \<and> score (likedTopics (userPreferences ex_app)) ''data'' = 0
   \<and> score (likedTopics (userPreferences (handleLike ex_stringify ex_split_article ex_app)))
        ''data'' = 0"
  by (intro conjI; code_simp)

text \<open>
  C6, amended. \<open>handleLike\<close> twice on the same article gives back the membership of every id
  in \<open>likedArticles\<close>. Topic scores never decrease: a call that unlikes leaves \<open>likedTopics\<close>
  as it is, a call that likes adds 1 to the score of every term of the vocabulary that
  occurs, case-insensitively, as a substring of the title, a space and the abstract put
  together, and changes no other score.
\<close>

theorem handleLike_toggle:
  "((i \<in> set (likedArticles (userPreferences
          (handleLike stringify article (handleLike stringify article st)))))
      = (i \<in> set (likedArticles (userPreferences st))))
   \<and> (id_a article \<in> set (likedArticles (userPreferences st)) \<longrightarrow>
        id_a article \<notin> set (likedArticles (userPreferences (handleLike stringify article st)))
        \<and> likedTopics (userPreferences (handleLike stringify article st))
            = likedTopics (userPreferences st))
   \<and> (id_a article \<notin> set (likedArticles (userPreferences st)) \<longrightarrow>
        id_a article \<in> set (likedArticles (userPreferences (handleLike stringify article st)))
        \<and> score (likedTopics (userPreferences (handleLike stringify article st))) t
            = score (likedTopics (userPreferences st)) t
              + (if t \<in> set SEARCH_TERMS
                    \<and> includes_str (toLowerCase (title article @ '' '' @ abstract article))
                          (toLowerCase t)
                 then 1 else 0))
   \<and> score (likedTopics (userPreferences st)) t
        \<le> score (likedTopics (userPreferences (handleLike stringify article st))) t"
proof -
  let ?st1 = "handleLike stringify article st"
  have topics: "score (likedTopics (userPreferences ?st1)) t
            = score (likedTopics (userPreferences st)) t
              + (if t \<in> set SEARCH_TERMS
                    \<and> includes_str (toLowerCase (title article @ '' '' @ abstract article))
                          (toLowerCase t)
                 then 1 else 0)"
    if "id_a article \<notin> set (likedArticles (userPreferences st))"
    using that by (simp add: likedTopics_handleLike score_foldl_likeTerm [OF distinct_SEARCH_TERMS])
  have member: "(i \<in> set (likedArticles (userPreferences (handleLike stringify article ?st1))))
      = (i \<in> set (likedArticles (userPreferences st)))"
    by (auto simp: likedArticles_handleLike)
  have unlike: "likedTopics (userPreferences ?st1) = likedTopics (userPreferences st)"
    if "id_a article \<in> set (likedArticles (userPreferences st))"
    using that by (simp add: likedTopics_handleLike)
  have mono: "score (likedTopics (userPreferences st)) t \<le> score (likedTopics (userPreferences ?st1)) t"
  proof (cases "id_a article \<in> set (likedArticles (userPreferences st))")
    case True
    then show ?thesis by (simp add: unlike)
  next
    case False
    then show ?thesis by (simp add: topics)
  qed
  show ?thesis
    using member unlike topics mono by (simp add: likedArticles_handleLike)
qed

lemma ex_text_ai:
  "includes_str (toLowerCase (title ex_article @ '' '' @ abstract ex_article)) (toLowerCase ''ai'')"
  by code_simp

theorem handleLike_toggle_witness:
  "id_a ex_article \<notin> set (likedArticles (userPreferences ex_app))
   \<and> id_a ex_article \<in> set (likedArticles (userPreferences (handleLike ex_stringify ex_article ex_app)))
   \<and> score (likedTopics (userPreferences (handleLike ex_stringify ex_article ex_app))) ''ai'' = 1
   \<and> likedTopics (userPreferences
         (handleLike ex_stringify ex_article (handleLike ex_stringify ex_article ex_app)))
       = likedTopics (userPreferences (handleLike ex_stringify ex_article ex_app))"
proof -
  have fresh: "id_a ex_article \<notin> set (likedArticles (userPreferences ex_app))"
    by (simp add: ex_app_def initialApp_def defaultPreferences_def)
  have s0: "score (likedTopics (userPreferences ex_app)) ''ai'' = 0"
    by (simp add: ex_app_def initialApp_def defaultPreferences_def score_def)
  have voc: "''ai'' \<in> set SEARCH_TERMS"
    by (simp add: SEARCH_TERMS_def)
  from handleLike_toggle [of "id_a ex_article" ex_stringify ex_article ex_app "''ai''"] fresh
  have liked: "id_a ex_article
        \<in> set (likedArticles (userPreferences (handleLike ex_stringify ex_article ex_app)))"
    and sc: "score (likedTopics (userPreferences (handleLike ex_stringify ex_article ex_app))) ''ai'' = 1"
    using s0 voc ex_text_ai by simp_all
  from handleLike_toggle [of "id_a ex_article" ex_stringify ex_article
      "handleLike ex_stringify ex_article ex_app" "''ai''"] liked
  have "likedTopics (userPreferences
         (handleLike ex_stringify ex_article (handleLike ex_stringify ex_article ex_app)))
       = likedTopics (userPreferences (handleLike ex_stringify ex_article ex_app))"
    by simp
  with fresh liked sc show ?thesis by simp
qed

section \<open>Properties of \<open>fetchArticles\<close>\<close>


lemma loopBody_hit:
  "cacheKeyOf (nthTerm recommendedTerms (termIndex d)) (offset d) \<notin> usedCacheKeys captured
   \<Longrightarrow> cache captured (cacheKeyOf (nthTerm recommendedTerms (termIndex d)) (offset d))
         = Some cachedArticles
   \<Longrightarrow> loopBody stringify currentYear recommendedTerms captured d v
       = (Break, v\<lparr>newArticles := cachedArticles\<rparr>)"
  by (simp add: loopBody_def Let_def)

lemma loopBody_fetched:
  "cacheKeyOf (nthTerm recommendedTerms (termIndex d)) (offset d) \<notin> usedCacheKeys captured
   \<Longrightarrow> cache captured (cacheKeyOf (nthTerm recommendedTerms (termIndex d)) (offset d)) = None
   \<Longrightarrow> response d = Body (Some results)
   \<Longrightarrow> fetchedArticles currentYear results \<noteq> []
   \<Longrightarrow> newArticles (snd (loopBody stringify currentYear recommendedTerms captured d v))
         = fetchedArticles currentYear results
       \<and> fst (loopBody stringify currentYear recommendedTerms captured d v) = Continue
       \<and> attempts (snd (loopBody stringify currentYear recommendedTerms captured d v))
         = attempts v + 1
       \<and> articles (updated (snd (loopBody stringify currentYear recommendedTerms captured d v)))
         = articles (updated v)
       \<and> cache (updated (snd (loopBody stringify currentYear recommendedTerms captured d v)))
         = (cache (updated v))(cacheKeyOf (nthTerm recommendedTerms (termIndex d)) (offset d)
              \<mapsto> fetchedArticles currentYear results)
       \<and> usedCacheKeys (updated (snd (loopBody stringify currentYear recommendedTerms captured d v)))
         = insert (cacheKeyOf (nthTerm recommendedTerms (termIndex d)) (offset d))
             (usedCacheKeys (updated v))"
  by (cases results) (simp_all add: loopBody_def Let_def fetchedArticles_def)

lemma fetchLoop_stop:
  "\<not> (length (newArticles v) = 0 \<and> attempts v < maxAttempts)
   \<Longrightarrow> fetchLoop stringify currentYear recommendedTerms captured draws v = v"
  by (subst fetchLoop.simps) auto

lemma fetchLoop_break:
  "length (newArticles v) = 0 \<and> attempts v < maxAttempts
   \<Longrightarrow> loopBody stringify currentYear recommendedTerms captured (draws (attempts v)) v = (Break, v')
   \<Longrightarrow> fetchLoop stringify currentYear recommendedTerms captured draws v = v'"
  by (subst fetchLoop.simps) auto

lemma fetchLoop_continue:
  "length (newArticles v) = 0 \<and> attempts v < maxAttempts
   \<Longrightarrow> loopBody stringify currentYear recommendedTerms captured (draws (attempts v)) v = (Continue, v')
   \<Longrightarrow> fetchLoop stringify currentYear recommendedTerms captured draws v
       = fetchLoop stringify currentYear recommendedTerms captured draws v'"
  by (subst fetchLoop.simps) auto





lemma advance_stop:
  "\<not> (length (newArticles v) = 0 \<and> attempts v < maxAttempts)
   \<Longrightarrow> advance stringify currentYear recommendedTerms captured draws v = (None, finish v)"
  by (subst advance.simps) auto

lemma advance_await:
  "length (newArticles v) = 0 \<and> attempts v < maxAttempts
   \<Longrightarrow> awaits recommendedTerms captured (draws (attempts v))
   \<Longrightarrow> advance stringify currentYear recommendedTerms captured draws v
         = (Some (attempts v), updated v)"
  by (subst advance.simps) auto

lemma advance_break:
  "length (newArticles v) = 0 \<and> attempts v < maxAttempts
   \<Longrightarrow> \<not> awaits recommendedTerms captured (draws (attempts v))
   \<Longrightarrow> loopBody stringify currentYear recommendedTerms captured (draws (attempts v)) v = (Break, v')
   \<Longrightarrow> advance stringify currentYear recommendedTerms captured draws v = (None, finish v')"
  by (subst advance.simps) auto

lemma advance_continue:
  "length (newArticles v) = 0 \<and> attempts v < maxAttempts
   \<Longrightarrow> \<not> awaits recommendedTerms captured (draws (attempts v))
   \<Longrightarrow> loopBody stringify currentYear recommendedTerms captured (draws (attempts v)) v
         = (Continue, v')
   \<Longrightarrow> advance stringify currentYear recommendedTerms captured draws v
         = advance stringify currentYear recommendedTerms captured draws v'"
  by (subst advance.simps) auto




lemma loopBody_awaits:
  "awaits recommendedTerms captured d
   \<Longrightarrow> fst (loopBody stringify currentYear recommendedTerms captured d v) = Continue"
  by (auto simp: awaits_def loopBody_def Let_def split: response.splits option.splits)

lemma loop_vars_rebuild:
  "newArticles v = [] \<Longrightarrow> \<lparr>newArticles = [], attempts = attempts v, updated = updated v\<rparr> = v"
  by simp

lemma complete_advance:
  "recommendedTerms = getRecommendedTerms (userPreferences captured)
   \<Longrightarrow> maxAttempts - attempts v \<le> n
   \<Longrightarrow> complete stringify currentYear captured draws n
         (advance stringify currentYear recommendedTerms captured draws v)
       = finish (fetchLoop stringify currentYear recommendedTerms captured draws v)"
proof (induction stringify currentYear recommendedTerms captured draws v arbitrary: n
    rule: fetchLoop.induct)
  case (1 stringify currentYear recommendedTerms captured draws v)
  let ?b = "loopBody stringify currentYear recommendedTerms captured (draws (attempts v)) v"
  show ?case
  proof (cases "length (newArticles v) = 0 \<and> attempts v < maxAttempts")
    case False
    then show ?thesis by (simp add: advance_stop fetchLoop_stop)
  next
    case True
    obtain fl v' where b: "?b = (fl, v')" by (cases ?b)
    show ?thesis
    proof (cases "awaits recommendedTerms captured (draws (attempts v))")
      case aw: True
      with b loopBody_awaits [of recommendedTerms captured "draws (attempts v)" stringify currentYear v]
      have fl: "fl = Continue" by simp
      from b fl have more: "attempts v' = attempts v + 1"
        by (simp add: loopBody_Continue)
      from True "1.prems"(2) obtain m where n: "n = Suc m" by (cases n) auto
      from True have v: "\<lparr>newArticles = [], attempts = attempts v, updated = updated v\<rparr> = v"
        by simp
      have r: "respond stringify currentYear
            \<lparr>call_closure = captured, call_draws = draws, call_attempts = attempts v\<rparr> (updated v)
          = advance stringify currentYear recommendedTerms captured draws v'"
        using b fl v "1.prems"(1) by (simp add: respond_def Let_def)
      from "1.prems"(2) n more have m: "maxAttempts - attempts v' \<le> m" by simp
      have "complete stringify currentYear captured draws n
          (advance stringify currentYear recommendedTerms captured draws v)
        = complete stringify currentYear captured draws m
            (advance stringify currentYear recommendedTerms captured draws v')"
        using True aw n r by (simp add: advance_await)
      also have "\<dots> = finish (fetchLoop stringify currentYear recommendedTerms captured draws v')"
        using "1.IH" [OF True b [symmetric] fl "1.prems"(1) m] .
      also have "\<dots> = finish (fetchLoop stringify currentYear recommendedTerms captured draws v)"
        using True b fl by (simp add: fetchLoop_continue)
      finally show ?thesis .
    next
      case aw: False
      show ?thesis
      proof (cases fl)
        case Break
        with True aw b show ?thesis by (simp add: advance_break fetchLoop_break)
      next
        case Continue
        from b Continue have more: "attempts v' = attempts v + 1"
          by (simp add: loopBody_Continue)
        with "1.prems"(2) have m: "maxAttempts - attempts v' \<le> n" by simp
        from "1.IH" [OF True b [symmetric] Continue "1.prems"(1) m] True aw b Continue
        show ?thesis by (simp add: advance_continue fetchLoop_continue)
      qed
    qed
  qed
qed

lemma complete_callFetchArticles:
  "complete stringify currentYear captured draws maxAttempts
       (callFetchArticles stringify currentYear captured draws st)
     = fetchArticles stringify currentYear captured draws st"
  by (simp add: callFetchArticles_def fetchArticles_def Let_def complete_advance)

text \<open>
  C4, evaluated on an empty buffer and a provider answer that holds the id \<open>p1\<close> twice: both
  articles are appended, and the buffer has two elements with the same id.
\<close>

theorem repeated_id_in_one_batch:
  "articles ex_app = []
   \<and> map id_a (articles
        (fetchArticles ex_stringifyArticles 2026 ex_app (ex_draws ex_repeating) ex_app))
       = [''p1'', ''p1'']
   \<and> \<not> distinct (map id_a (articles
        (fetchArticles ex_stringifyArticles 2026 ex_app (ex_draws ex_repeating) ex_app)))"
  by (intro conjI; code_simp)

lemma distinct_appendUnique:
  "distinct (map id_a prev) \<Longrightarrow> distinct (map id_a new)
   \<Longrightarrow> distinct (map id_a (appendUnique prev new))"
  by (auto simp: appendUnique_def Let_def distinct_map_filter image_iff)

lemma length_fetchedArticles:
  "length (fetchedArticles currentYear results)
     = length (filter (\<lambda>pf. qualifies (fst pf)) results)"
  by (simp add: fetchedArticles_def)

lemma shortAbstract_not_qualifies: "shortAbstract p \<Longrightarrow> \<not> qualifies p"
  by (auto simp: shortAbstract_def qualifies_def split: option.splits)

lemma five_minus_two:
  assumes "length results = 5"
    and "length (filter (\<lambda>pf. shortAbstract (fst pf)) results) = 2"
    and "\<forall>pf \<in> set results. \<not> shortAbstract (fst pf) \<longrightarrow> qualifies (fst pf)"
  shows "length (fetchedArticles currentYear results) = 3"
proof -
  have "filter (\<lambda>pf. qualifies (fst pf)) results = filter (\<lambda>pf. \<not> shortAbstract (fst pf)) results"
    using assms(3) shortAbstract_not_qualifies by (intro filter_cong) auto
  moreover have "length (filter (\<lambda>pf. shortAbstract (fst pf)) results)
      + length (filter (\<lambda>pf. \<not> shortAbstract (fst pf)) results) = length results"
    by (rule sum_length_filter_compl)
  ultimately show ?thesis using assms(1,2) by (simp add: length_fetchedArticles)
qed

lemma loopBody_noBatch:
  assumes "cacheKeyOf (nthTerm recommendedTerms (termIndex d)) (offset d) \<in> usedCacheKeys captured
      \<or> (cache captured (cacheKeyOf (nthTerm recommendedTerms (termIndex d)) (offset d)) = None
          \<and> (\<forall>rs. response d = Body (Some rs) \<longrightarrow> fetchedArticles currentYear rs = []))"
  shows "\<exists>v'. loopBody stringify currentYear recommendedTerms captured d v = (Continue, v')
          \<and> newArticles v' = newArticles v \<and> attempts v' = attempts v + 1
          \<and> articles (updated v') = articles (updated v)"
  using assms
  by (auto simp: loopBody_def Let_def split: option.splits response.splits)

lemma fetchLoop_first_success_from:
  assumes i: "i < maxAttempts"
    and fresh: "cacheKeyOf (nthTerm recommendedTerms (termIndex (draws i))) (offset (draws i))
              \<notin> usedCacheKeys captured"
    and miss: "cache captured (cacheKeyOf (nthTerm recommendedTerms (termIndex (draws i)))
              (offset (draws i))) = None"
    and resp: "response (draws i) = Body (Some results)"
    and some: "fetchedArticles currentYear results \<noteq> []"
  shows "newArticles v = [] \<Longrightarrow> attempts v \<le> i
    \<Longrightarrow> (\<forall>j. attempts v \<le> j \<and> j < i \<longrightarrow>
          cacheKeyOf (nthTerm recommendedTerms (termIndex (draws j))) (offset (draws j))
            \<in> usedCacheKeys captured
          \<or> (cache captured (cacheKeyOf (nthTerm recommendedTerms (termIndex (draws j)))
                (offset (draws j))) = None
              \<and> (\<forall>rs. response (draws j) = Body (Some rs) \<longrightarrow> fetchedArticles currentYear rs = [])))
    \<Longrightarrow> newArticles (fetchLoop stringify currentYear recommendedTerms captured draws v)
          = fetchedArticles currentYear results
        \<and> attempts (fetchLoop stringify currentYear recommendedTerms captured draws v) = i + 1
        \<and> articles (updated (fetchLoop stringify currentYear recommendedTerms captured draws v))
          = articles (updated v)"
proof (induction "i - attempts v" arbitrary: v)
  case 0
  then have at: "attempts v = i" by simp
  let ?b = "loopBody stringify currentYear recommendedTerms captured (draws (attempts v)) v"
  obtain fl v' where b: "?b = (fl, v')" by (cases ?b)
  from loopBody_fetched [of recommendedTerms "draws i" captured results currentYear stringify v]
    fresh miss resp some b at
  have fl: "fl = Continue" and new: "newArticles v' = fetchedArticles currentYear results"
    and att: "attempts v' = i + 1" and arts: "articles (updated v') = articles (updated v)"
    by simp_all
  have g: "length (newArticles v) = 0 \<and> attempts v < maxAttempts"
    using "0.prems"(1) at i by simp
  have "fetchLoop stringify currentYear recommendedTerms captured draws v
      = fetchLoop stringify currentYear recommendedTerms captured draws v'"
    using g b fl by (simp add: fetchLoop_continue)
  also have "\<dots> = v'"
    using new some by (simp add: fetchLoop_stop)
  finally show ?case using new att arts by simp
next
  case (Suc k)
  then have lt: "attempts v < i" by simp
  let ?b = "loopBody stringify currentYear recommendedTerms captured (draws (attempts v)) v"
  from Suc.prems(3) lt
  have nb: "cacheKeyOf (nthTerm recommendedTerms (termIndex (draws (attempts v))))
            (offset (draws (attempts v))) \<in> usedCacheKeys captured
          \<or> (cache captured (cacheKeyOf (nthTerm recommendedTerms (termIndex (draws (attempts v))))
                (offset (draws (attempts v)))) = None
              \<and> (\<forall>rs. response (draws (attempts v)) = Body (Some rs)
                    \<longrightarrow> fetchedArticles currentYear rs = []))"
    by blast
  from loopBody_noBatch [OF nb, of stringify v]
  obtain v' where b: "?b = (Continue, v')" and new: "newArticles v' = newArticles v"
    and att: "attempts v' = attempts v + 1"
    and arts: "articles (updated v') = articles (updated v)"
    by blast
  have g: "length (newArticles v) = 0 \<and> attempts v < maxAttempts"
    using Suc.prems(1) lt i by simp
  have k: "k = i - attempts v'" using Suc.hyps(2) att by simp
  have rest: "\<forall>j. attempts v' \<le> j \<and> j < i \<longrightarrow>
          cacheKeyOf (nthTerm recommendedTerms (termIndex (draws j))) (offset (draws j))
            \<in> usedCacheKeys captured
          \<or> (cache captured (cacheKeyOf (nthTerm recommendedTerms (termIndex (draws j)))
                (offset (draws j))) = None
              \<and> (\<forall>rs. response (draws j) = Body (Some rs) \<longrightarrow> fetchedArticles currentYear rs = []))"
    using Suc.prems(3) att by auto
  have "newArticles v' = []" using new Suc.prems(1) by simp
  moreover have "attempts v' \<le> i" using att lt by simp
  ultimately
  have "newArticles (fetchLoop stringify currentYear recommendedTerms captured draws v')
          = fetchedArticles currentYear results
        \<and> attempts (fetchLoop stringify currentYear recommendedTerms captured draws v') = i + 1
        \<and> articles (updated (fetchLoop stringify currentYear recommendedTerms captured draws v'))
          = articles (updated v')"
    using Suc.hyps(1) [OF k] rest by blast
  moreover have "fetchLoop stringify currentYear recommendedTerms captured draws v
      = fetchLoop stringify currentYear recommendedTerms captured draws v'"
    using g b by (simp add: fetchLoop_continue)
  ultimately show ?case using arts by simp
qed

lemma respond_success:
  assumes fresh: "cacheKeyOf (nthTerm (getRecommendedTerms (userPreferences (call_closure c)))
          (termIndex (call_draws c (call_attempts c)))) (offset (call_draws c (call_attempts c)))
        \<notin> usedCacheKeys (call_closure c)"
    and miss: "cache (call_closure c)
        (cacheKeyOf (nthTerm (getRecommendedTerms (userPreferences (call_closure c)))
          (termIndex (call_draws c (call_attempts c)))) (offset (call_draws c (call_attempts c))))
        = None"
    and resp: "response (call_draws c (call_attempts c)) = Body (Some results)"
    and some: "fetchedArticles currentYear results \<noteq> []"
  shows "fst (respond stringify currentYear c st) = None
     \<and> articles (snd (respond stringify currentYear c st))
        = appendUnique (articles st) (fetchedArticles currentYear results)"
proof -
  let ?terms = "getRecommendedTerms (userPreferences (call_closure c))"
  let ?v = "\<lparr>newArticles = [], attempts = call_attempts c, updated = st\<rparr>"
  let ?b = "loopBody stringify currentYear ?terms (call_closure c)
      (call_draws c (call_attempts c)) ?v"
  obtain fl v' where b: "?b = (fl, v')" by (cases ?b)
  from loopBody_fetched [of ?terms "call_draws c (call_attempts c)" "call_closure c" results
      currentYear stringify ?v] fresh miss resp some b
  have fl: "fl = Continue" and new: "newArticles v' = fetchedArticles currentYear results"
    and arts: "articles (updated v') = articles st"
    by simp_all
  have "respond stringify currentYear c st
      = advance stringify currentYear ?terms (call_closure c) (call_draws c) v'"
    using b fl by (simp add: respond_def Let_def)
  also have "\<dots> = (None, finish v')"
    using new some by (simp add: advance_stop)
  finally show ?thesis
    using new some arts by (simp add: finish_def Let_def)
qed

text \<open>
  C10. When the attempts before the attempt \<open>i\<close> give no batch and the key drawn at the
  attempt \<open>i\<close> is neither used nor cached in the closure, and the provider answers it with a
  list of results, the batch of the call is made of exactly the results with a non-empty
  title and an abstract of more than 100 characters, each mapped to an article: the id is
  the paper's id or else the synthesized one, the year is the paper's or else the current
  year, the url is the paper's or else \<open>#\<close>. The buffer receives the batch through the
  updater, in a call that runs in one piece and in a suspended call that gets its answer.
  An answer of 5 results, 2 of them with an abstract under 100 characters and the other 3
  qualifying, gives exactly 3 articles.
\<close>

theorem fetch_success_batch:
  "(i < maxAttempts \<and> \<not> loading captured
    \<and> (\<forall>j<i. cacheKeyOf (nthTerm (getRecommendedTerms (userPreferences captured))
                  (termIndex (draws j))) (offset (draws j)) \<in> usedCacheKeys captured
             \<or> (cache captured (cacheKeyOf (nthTerm (getRecommendedTerms (userPreferences captured))
                  (termIndex (draws j))) (offset (draws j))) = None
                 \<and> (\<forall>rs. response (draws j) = Body (Some rs)
                       \<longrightarrow> fetchedArticles currentYear rs = [])))
    \<and> cacheKeyOf (nthTerm (getRecommendedTerms (userPreferences captured)) (termIndex (draws i)))
         (offset (draws i)) \<notin> usedCacheKeys captured
    \<and> cache captured (cacheKeyOf (nthTerm (getRecommendedTerms (userPreferences captured))
         (termIndex (draws i))) (offset (draws i))) = None
    \<and> response (draws i) = Body (Some results)
    \<and> fetchedArticles currentYear results \<noteq> [] \<longrightarrow>
      newArticles (fetchLoop stringify currentYear (getRecommendedTerms (userPreferences captured))
          captured draws \<lparr>newArticles = [], attempts = 0, updated = st\<lparr>loading := True\<rparr>\<rparr>)
        = fetchedArticles currentYear results
      \<and> attempts (fetchLoop stringify currentYear (getRecommendedTerms (userPreferences captured))
          captured draws \<lparr>newArticles = [], attempts = 0, updated = st\<lparr>loading := True\<rparr>\<rparr>)
        = i + 1
      \<and> articles (fetchArticles stringify currentYear captured draws st)
        = appendUnique (articles st) (fetchedArticles currentYear results))
   \<and> (cacheKeyOf (nthTerm (getRecommendedTerms (userPreferences (call_closure c)))
          (termIndex (call_draws c (call_attempts c)))) (offset (call_draws c (call_attempts c)))
        \<notin> usedCacheKeys (call_closure c)
      \<and> cache (call_closure c)
          (cacheKeyOf (nthTerm (getRecommendedTerms (userPreferences (call_closure c)))
            (termIndex (call_draws c (call_attempts c)))) (offset (call_draws c (call_attempts c))))
          = None
      \<and> response (call_draws c (call_attempts c)) = Body (Some results)
      \<and> fetchedArticles currentYear results \<noteq> [] \<longrightarrow>
        fst (respond stringify currentYear c st) = None
        \<and> articles (snd (respond stringify currentYear c st))
            = appendUnique (articles st) (fetchedArticles currentYear results))
   \<and> fetchedArticles currentYear results
       = map (toArticle currentYear) (filter (\<lambda>pf. qualifies (fst pf)) results)
   \<and> (qualifies p \<longleftrightarrow>
        (\<exists>t a. paper_title p = Some t \<and> t \<noteq> [] \<and> paper_abstract p = Some a \<and> 100 < length a))
   \<and> (qualifies p \<longrightarrow>
        paper_title p = Some (title (toArticle currentYear (p, fallbackId)))
        \<and> paper_abstract p = Some (abstract (toArticle currentYear (p, fallbackId))))
   \<and> id_a (toArticle currentYear (p, fallbackId))
       = (case paperId p of None \<Rightarrow> fallbackId | Some i \<Rightarrow> if i = [] then fallbackId else i)
   \<and> year (toArticle currentYear (p, fallbackId))
       = (case paper_year p of None \<Rightarrow> currentYear | Some y \<Rightarrow> if y = 0 then currentYear else y)
   \<and> url (toArticle currentYear (p, fallbackId))
       = (case paper_url p of None \<Rightarrow> ''#'' | Some u \<Rightarrow> if u = [] then ''#'' else u)
   \<and> (length results = 5
        \<and> length (filter (\<lambda>pf. shortAbstract (fst pf)) results) = 2
        \<and> (\<forall>pf \<in> set results. \<not> shortAbstract (fst pf) \<longrightarrow> qualifies (fst pf)) \<longrightarrow>
        length (fetchedArticles currentYear results) = 3)"
proof (intro conjI)
  let ?terms = "getRecommendedTerms (userPreferences captured)"
  let ?start = "\<lparr>newArticles = [], attempts = 0, updated = st\<lparr>loading := True\<rparr>\<rparr>"
  let ?v = "fetchLoop stringify currentYear ?terms captured draws ?start"
  show "i < maxAttempts \<and> \<not> loading captured
    \<and> (\<forall>j<i. cacheKeyOf (nthTerm ?terms (termIndex (draws j))) (offset (draws j))
                \<in> usedCacheKeys captured
             \<or> (cache captured (cacheKeyOf (nthTerm ?terms (termIndex (draws j)))
                  (offset (draws j))) = None
                 \<and> (\<forall>rs. response (draws j) = Body (Some rs)
                       \<longrightarrow> fetchedArticles currentYear rs = [])))
    \<and> cacheKeyOf (nthTerm ?terms (termIndex (draws i))) (offset (draws i))
        \<notin> usedCacheKeys captured
    \<and> cache captured (cacheKeyOf (nthTerm ?terms (termIndex (draws i))) (offset (draws i))) = None
    \<and> response (draws i) = Body (Some results)
    \<and> fetchedArticles currentYear results \<noteq> [] \<longrightarrow>
      newArticles ?v = fetchedArticles currentYear results
      \<and> attempts ?v = i + 1
      \<and> articles (fetchArticles stringify currentYear captured draws st)
        = appendUnique (articles st) (fetchedArticles currentYear results)"
  proof
    assume h: "i < maxAttempts \<and> \<not> loading captured
      \<and> (\<forall>j<i. cacheKeyOf (nthTerm ?terms (termIndex (draws j))) (offset (draws j))
                  \<in> usedCacheKeys captured
               \<or> (cache captured (cacheKeyOf (nthTerm ?terms (termIndex (draws j)))
                    (offset (draws j))) = None
                   \<and> (\<forall>rs. response (draws j) = Body (Some rs)
                         \<longrightarrow> fetchedArticles currentYear rs = [])))
      \<and> cacheKeyOf (nthTerm ?terms (termIndex (draws i))) (offset (draws i))
          \<notin> usedCacheKeys captured
      \<and> cache captured (cacheKeyOf (nthTerm ?terms (termIndex (draws i))) (offset (draws i))) = None
      \<and> response (draws i) = Body (Some results)
      \<and> fetchedArticles currentYear results \<noteq> []"
    then have earlier: "\<forall>j. attempts ?start \<le> j \<and> j < i \<longrightarrow>
          cacheKeyOf (nthTerm ?terms (termIndex (draws j))) (offset (draws j))
            \<in> usedCacheKeys captured
          \<or> (cache captured (cacheKeyOf (nthTerm ?terms (termIndex (draws j)))
                (offset (draws j))) = None
              \<and> (\<forall>rs. response (draws j) = Body (Some rs) \<longrightarrow> fetchedArticles currentYear rs = []))"
      by simp
    from h have i: "i < maxAttempts"
      and fresh: "cacheKeyOf (nthTerm ?terms (termIndex (draws i))) (offset (draws i))
          \<notin> usedCacheKeys captured"
      and miss: "cache captured (cacheKeyOf (nthTerm ?terms (termIndex (draws i)))
          (offset (draws i))) = None"
      and resp: "response (draws i) = Body (Some results)"
      and some: "fetchedArticles currentYear results \<noteq> []"
      by blast+
    have "newArticles ?start = []" and "attempts ?start \<le> i" by simp_all
    from fetchLoop_first_success_from [OF i fresh miss resp some this earlier, of stringify]
    have new: "newArticles ?v = fetchedArticles currentYear results"
      and att: "attempts ?v = i + 1"
      and arts: "articles (updated ?v) = articles st"
      by simp_all
    from h new arts
    have "articles (fetchArticles stringify currentYear captured draws st)
        = appendUnique (articles st) (fetchedArticles currentYear results)"
      by (simp add: fetchArticles_def finish_def Let_def)
    with new att show "newArticles ?v = fetchedArticles currentYear results
      \<and> attempts ?v = i + 1
      \<and> articles (fetchArticles stringify currentYear captured draws st)
        = appendUnique (articles st) (fetchedArticles currentYear results)"
      by simp
  qed
  show "cacheKeyOf (nthTerm (getRecommendedTerms (userPreferences (call_closure c)))
          (termIndex (call_draws c (call_attempts c)))) (offset (call_draws c (call_attempts c)))
        \<notin> usedCacheKeys (call_closure c)
      \<and> cache (call_closure c)
          (cacheKeyOf (nthTerm (getRecommendedTerms (userPreferences (call_closure c)))
            (termIndex (call_draws c (call_attempts c)))) (offset (call_draws c (call_attempts c))))
          = None
      \<and> response (call_draws c (call_attempts c)) = Body (Some results)
      \<and> fetchedArticles currentYear results \<noteq> [] \<longrightarrow>
        fst (respond stringify currentYear c st) = None
        \<and> articles (snd (respond stringify currentYear c st))
            = appendUnique (articles st) (fetchedArticles currentYear results)"
    using respond_success [of c results currentYear stringify st] by blast
  show "fetchedArticles currentYear results
       = map (toArticle currentYear) (filter (\<lambda>pf. qualifies (fst pf)) results)"
    by (simp add: fetchedArticles_def)
  show "qualifies p \<longleftrightarrow>
        (\<exists>t a. paper_title p = Some t \<and> t \<noteq> [] \<and> paper_abstract p = Some a \<and> 100 < length a)"
    by (auto simp: qualifies_def split: option.splits)
  show "qualifies p \<longrightarrow>
        paper_title p = Some (title (toArticle currentYear (p, fallbackId)))
        \<and> paper_abstract p = Some (abstract (toArticle currentYear (p, fallbackId)))"
    by (auto simp: qualifies_def toArticle_def split: option.splits)
  show "id_a (toArticle currentYear (p, fallbackId))
       = (case paperId p of None \<Rightarrow> fallbackId | Some i \<Rightarrow> if i = [] then fallbackId else i)"
    by (simp add: toArticle_def orElse_def)
  show "year (toArticle currentYear (p, fallbackId))
       = (case paper_year p of None \<Rightarrow> currentYear | Some y \<Rightarrow> if y = 0 then currentYear else y)"
    by (simp add: toArticle_def)
  show "url (toArticle currentYear (p, fallbackId))
       = (case paper_url p of None \<Rightarrow> ''#'' | Some u \<Rightarrow> if u = [] then ''#'' else u)"
    by (simp add: toArticle_def orElse_def)
  show "length results = 5
        \<and> length (filter (\<lambda>pf. shortAbstract (fst pf)) results) = 2
        \<and> (\<forall>pf \<in> set results. \<not> shortAbstract (fst pf) \<longrightarrow> qualifies (fst pf)) \<longrightarrow>
        length (fetchedArticles currentYear results) = 3"
    using five_minus_two [of results currentYear] by blast
qed

lemma ex_ai_key:
  "cacheKeyOf (nthTerm (getRecommendedTerms (userPreferences ex_app)) 2) 7 = ''ai-7''"
  by code_simp

lemma ex_second_key:
  "cacheKeyOf (nthTerm (getRecommendedTerms (userPreferences ex_app)) (termIndex (ex_second j)))
     (offset (ex_second j)) = ''ai-7''"
  using ex_ai_key by (simp add: ex_second_def)

lemma ex_five_ids: "map id_a (fetchedArticles 2026 ex_five) = [''p1'', ''p3'', ''p5'']"
  by code_simp

lemma ex_five_short: "length (filter (\<lambda>pf. shortAbstract (fst pf)) ex_five) = 2"
  by (simp add: ex_five_def ex_paper_def shortAbstract_def)

lemma ex_five_others: "\<forall>pf \<in> set ex_five. \<not> shortAbstract (fst pf) \<longrightarrow> qualifies (fst pf)"
  by (simp add: ex_five_def ex_paper_def shortAbstract_def qualifies_def)

theorem fetch_success_batch_witness:
  "(1::nat) < maxAttempts
   \<and> \<not> loading ex_app
   \<and> response (ex_second 0) = Rejected
   \<and> response (ex_second 1) = Body (Some ex_five)
   \<and> fetchedArticles 2026 ex_five \<noteq> []
   \<and> qualifies (ex_paper ''p1'' 101)
   \<and> length ex_five = 5
   \<and> length (filter (\<lambda>pf. shortAbstract (fst pf)) ex_five) = 2
   \<and> qualifies (ex_paper ''p3'' 150) \<and> qualifies (ex_paper ''p5'' 200)
   \<and> length (fetchedArticles 2026 ex_five) = 3
   \<and> attempts (fetchLoop ex_stringifyArticles 2026 (getRecommendedTerms (userPreferences ex_app))
         ex_app ex_second \<lparr>newArticles = [], attempts = 0, updated = ex_app\<lparr>loading := True\<rparr>\<rparr>)
       = 2
   \<and> map id_a (articles (fetchArticles ex_stringifyArticles 2026 ex_app ex_second ex_app))
       = [''p1'', ''p3'', ''p5'']
   \<and> map id_a (articles (snd (respond ex_stringifyArticles 2026
         \<lparr>call_closure = ex_app, call_draws = ex_second, call_attempts = 1\<rparr> ex_app)))
       = [''p1'', ''p3'', ''p5'']
   \<and> paper_title (ex_paper ''p1'' 101)
       = Some (title (toArticle 2026 (ex_paper ''p1'' 101, ''f1'')))"
proof -
  let ?c = "\<lparr>call_closure = ex_app, call_draws = ex_second, call_attempts = 1\<rparr>"
  have one: "(1::nat) < maxAttempts"
    by (simp add: maxAttempts_def)
  have idle: "\<not> loading ex_app" and empty: "articles ex_app = []"
    and fresh: "''ai-7'' \<notin> usedCacheKeys ex_app" and miss: "cache ex_app ''ai-7'' = None"
    by (simp_all add: ex_app_def initialApp_def)
  have r0: "response (ex_second 0) = Rejected"
    and r1: "response (ex_second 1) = Body (Some ex_five)"
    by (simp_all add: ex_second_def)
  have earlier: "\<forall>j<1. cacheKeyOf (nthTerm (getRecommendedTerms (userPreferences ex_app))
                  (termIndex (ex_second j))) (offset (ex_second j)) \<in> usedCacheKeys ex_app
             \<or> (cache ex_app (cacheKeyOf (nthTerm (getRecommendedTerms (userPreferences ex_app))
                  (termIndex (ex_second j))) (offset (ex_second j))) = None
                 \<and> (\<forall>rs. response (ex_second j) = Body (Some rs)
                       \<longrightarrow> fetchedArticles 2026 rs = []))"
    using miss r0 by (simp add: ex_second_key)
  have some: "fetchedArticles 2026 ex_five \<noteq> []"
    using ex_five_ids by auto
  have q: "qualifies (ex_paper ''p1'' 101)"
    and q': "qualifies (ex_paper ''p3'' 150) \<and> qualifies (ex_paper ''p5'' 200)"
    by (simp_all add: ex_paper_def qualifies_def)
  have len: "length ex_five = 5"
    by (simp add: ex_five_def)
  note inst = fetch_success_batch
    [where i = 1 and captured = ex_app and draws = ex_second and currentYear = 2026
       and results = ex_five and stringify = ex_stringifyArticles and st = ex_app and c = ?c
       and p = "ex_paper ''p1'' 101" and fallbackId = "''f1''"]
  from inst one idle earlier fresh miss r1 some
  have att: "attempts (fetchLoop ex_stringifyArticles 2026
         (getRecommendedTerms (userPreferences ex_app))
         ex_app ex_second \<lparr>newArticles = [], attempts = 0, updated = ex_app\<lparr>loading := True\<rparr>\<rparr>)
       = 2"
    and arts: "articles (fetchArticles ex_stringifyArticles 2026 ex_app ex_second ex_app)
      = appendUnique (articles ex_app) (fetchedArticles 2026 ex_five)"
    by (simp_all add: ex_second_key)
  from arts have ids: "map id_a (articles (fetchArticles ex_stringifyArticles 2026 ex_app
        ex_second ex_app)) = [''p1'', ''p3'', ''p5'']"
    using empty ex_five_ids by (simp add: appendUnique_def)
  from inst fresh miss r1 some
  have "articles (snd (respond ex_stringifyArticles 2026 ?c ex_app))
      = appendUnique (articles ex_app) (fetchedArticles 2026 ex_five)"
    by (simp add: ex_second_key)
  then have ids': "map id_a (articles (snd (respond ex_stringifyArticles 2026 ?c ex_app)))
      = [''p1'', ''p3'', ''p5'']"
    using empty ex_five_ids by (simp add: appendUnique_def)
  from inst len ex_five_short ex_five_others
  have three: "length (fetchedArticles 2026 ex_five) = 3"
    by blast
  from inst q
  have ttl: "paper_title (ex_paper ''p1'' 101)
       = Some (title (toArticle 2026 (ex_paper ''p1'' 101, ''f1'')))"
    by blast
  from one idle r0 r1 some q q' len ex_five_short three att ids ids' ttl show ?thesis
    by blast
qed

section \<open>Properties of the component between renders\<close>

lemma cachedAreUsed_index [simp]:
  "cachedAreUsed (increment st) = cachedAreUsed st"
  "cachedAreUsed (decrement st) = cachedAreUsed st"
  by (simp_all add: cachedAreUsed_def increment_def decrement_def)












lemma navigation_after_render:
  assumes "currentIndex (rendered sys) = currentIndex (current sys)"
    and "length (articles (rendered sys)) = length (articles (current sys))"
    and "inBounds (current sys)"
    and "e \<noteq> Render" and "\<forall>draws. e \<noteq> BufferLow draws" and "\<forall>n. e \<noteq> Respond n"
  shows "inBounds (current (step stringify currentYear e sys))"
  using assms
  by (cases e)
     (auto simp: step_def inBounds_def handleWheel_def handleKeyDown_def handleTouchStart_def
        handleTouchEnd_def timeout_def goToNext_def goToPrevious_def increment_def decrement_def
        Let_def)

text \<open>
  C5, evaluated on a component that has rendered 6 articles at the index 4: a wheel event
  and then a click on the next button, with no render in between, both pass the guard on
  the rendered index 4 and both increment, so the index is 6 with 6 articles.
\<close>

theorem wheel_then_next_out_of_bounds:
  "inBounds (current ex_shown)
   \<and> length (articles (current (run ex_stringifyArticles 2026 [Wheel 5, GoToNext] ex_shown))) = 6
   \<and> currentIndex (current (run ex_stringifyArticles 2026 [Wheel 5, GoToNext] ex_shown)) = 6
   \<and> \<not> inBounds (current (run ex_stringifyArticles 2026 [Wheel 5, GoToNext] ex_shown))"
  by (intro conjI; code_simp)

text \<open>
  C7, evaluated at mount on an empty storage. The call of line 168 and the call of the
  buffer-low effect are made by closures of the first render, in which \<open>loading\<close> is false.
  The second is made while the first is suspended and the current \<open>loading\<close> is true; it is
  suspended as well, and after the two answers the provider has been asked twice and both
  batches are in the buffer.
\<close>

theorem second_call_at_mount_goes_through:
  "\<not> isl (mount ex_reject ex_stringifyArticles 2026 Map.empty
          (ex_draws (ex_one ''p1'')) (ex_draws (ex_one ''p2'')))
   \<and> \<not> loading (rendered (ex_mounted (ex_draws (ex_one ''p1'')) (ex_draws (ex_one ''p2''))))
   \<and> loading (current (ex_mounted (ex_draws (ex_one ''p1'')) (ex_draws (ex_one ''p2''))))
   \<and> map call_attempts (running (ex_mounted (ex_draws (ex_one ''p1'')) (ex_draws (ex_one ''p2''))))
       = [0, 0]
   \<and> requests (current (run ex_stringifyArticles 2026 [Respond 0, Respond 0]
         (ex_mounted (ex_draws (ex_one ''p1'')) (ex_draws (ex_one ''p2'')))))
       = [searchUrl ''ai'' 7, searchUrl ''ai'' 7]
   \<and> map id_a (articles (current (run ex_stringifyArticles 2026 [Respond 0, Respond 0]
         (ex_mounted (ex_draws (ex_one ''p1'')) (ex_draws (ex_one ''p2''))))))
       = [''p1'', ''p2'']"
  by (intro conjI; code_simp)

text \<open>
  C8, evaluated at mount on an empty storage. The first call gets a paper for \<open>ai-7\<close> and
  marks the key used. The second call, whose closure holds the empty used-key set of the
  first render, fails on \<open>science-1\<close>, then draws \<open>ai-7\<close>: the key is in the current used-key
  set, and the call asks the provider for it again and adopts the batch.
\<close>

theorem used_key_fetched_again:
  "''ai-7'' \<in> usedCacheKeys (current (run ex_stringifyArticles 2026 [Respond 0, Respond 0]
       (ex_mounted (ex_draws (ex_one ''p1'')) (ex_late (ex_one ''p2'')))))
   \<and> map call_attempts (running (run ex_stringifyArticles 2026 [Respond 0, Respond 0]
       (ex_mounted (ex_draws (ex_one ''p1'')) (ex_late (ex_one ''p2'')))))
       = [1]
   \<and> cacheKeyOf (nthTerm SEARCH_TERMS (termIndex (ex_late (ex_one ''p2'') 1)))
        (offset (ex_late (ex_one ''p2'') 1)) = ''ai-7''
   \<and> requests (current (run ex_stringifyArticles 2026 [Respond 0, Respond 0]
       (ex_mounted (ex_draws (ex_one ''p1'')) (ex_late (ex_one ''p2'')))))
       = [searchUrl ''ai'' 7, searchUrl ''science'' 1]
   \<and> requests (current (run ex_stringifyArticles 2026 [Respond 0, Respond 0, Respond 0]
       (ex_mounted (ex_draws (ex_one ''p1'')) (ex_late (ex_one ''p2'')))))
       = [searchUrl ''ai'' 7, searchUrl ''science'' 1, searchUrl ''ai'' 7]
   \<and> map id_a (articles (current (run ex_stringifyArticles 2026 [Respond 0, Respond 0, Respond 0]
       (ex_mounted (ex_draws (ex_one ''p1'')) (ex_late (ex_one ''p2''))))))
       = [''p1'', ''p2'']"
  by (intro conjI; code_simp)

section \<open>Properties of the buffer-low effect\<close>

text \<open>
  C1, evaluated on a buffer of 5 articles shown at index 1: \<open>remaining\<close> is 3 and no fetch is
  in flight, and the effect does not call \<open>fetchArticles\<close>.
\<close>

theorem bufferLow_remaining_three:
  "remaining (ex_buffer 5 1 False) = 3
   \<and> \<not> loading (ex_buffer 5 1 False)
   \<and> bufferLowEffect (ex_buffer 5 1 False) = []"
  by (simp add: ex_buffer_def initialApp_def remaining_def bufferLowEffect_def)

text \<open>
  C1, amended. The effect tests \<open>articles.length - currentIndex <= 3\<close>, that is
  \<open>remaining \<le> 2\<close>. In every state with \<open>remaining\<close> at most 2 and \<open>loading\<close> false, a run of
  the effect calls \<open>fetchArticles\<close> exactly once; while \<open>loading\<close> is true it makes no call,
  and it makes none when \<open>remaining\<close> is 3 or more. With 6 articles and the index 4
  (\<open>remaining = 1\<close>) there is exactly one call while \<open>loading\<close> is false and none while it is
  true.
\<close>

theorem bufferLow_trigger:
  "(remaining st \<le> 2 \<and> \<not> loading st \<longrightarrow> bufferLowEffect st = [FetchArticles])
   \<and> (loading st \<longrightarrow> bufferLowEffect st = [])
   \<and> (3 \<le> remaining st \<longrightarrow> bufferLowEffect st = [])
   \<and> (length (articles st) = 6 \<and> currentIndex st = 4 \<longrightarrow>
        remaining st = 1 \<and> bufferLowEffect st = (if loading st then [] else [FetchArticles]))"
  by (auto simp: remaining_def bufferLowEffect_def)

theorem bufferLow_trigger_witness:
  "remaining (ex_buffer 6 4 False) \<le> 2 \<and> \<not> loading (ex_buffer 6 4 False)
   \<and> bufferLowEffect (ex_buffer 6 4 False) = [FetchArticles]
   \<and> loading (ex_buffer 6 4 True) \<and> bufferLowEffect (ex_buffer 6 4 True) = []
   \<and> 3 \<le> remaining (ex_buffer 5 1 False) \<and> bufferLowEffect (ex_buffer 5 1 False) = []
   \<and> length (articles (ex_buffer 6 4 False)) = 6 \<and> currentIndex (ex_buffer 6 4 False) = 4"
proof -
  have a: "remaining (ex_buffer 6 4 False) \<le> 2 \<and> \<not> loading (ex_buffer 6 4 False)"
    and b: "loading (ex_buffer 6 4 True)"
    and c: "3 \<le> remaining (ex_buffer 5 1 False)"
    and d: "length (articles (ex_buffer 6 4 False)) = 6 \<and> currentIndex (ex_buffer 6 4 False) = 4"
    by (simp_all add: ex_buffer_def initialApp_def remaining_def)
  from bufferLow_trigger [of "ex_buffer 6 4 False"] a d
  have "bufferLowEffect (ex_buffer 6 4 False) = [FetchArticles]" by blast
  moreover from bufferLow_trigger [of "ex_buffer 6 4 True"] b
  have "bufferLowEffect (ex_buffer 6 4 True) = []" by blast
  moreover from bufferLow_trigger [of "ex_buffer 5 1 False"] c
  have "bufferLowEffect (ex_buffer 5 1 False) = []" by blast
  ultimately show ?thesis using a b c d by blast
qed

section \<open>Properties of the storage readers\<close>

lemma mapThrowing_Inr:
  "(\<forall>x \<in> set xs. \<exists>y. f x = Inr y)
   \<Longrightarrow> mapThrowing f xs = Inr (map (\<lambda>x. projr (f x)) xs)"
  by (induction xs) auto

lemma mapThrowing_Inl:
  "x \<in> set xs \<Longrightarrow> f x = Inl e \<Longrightarrow> \<exists>e'. mapThrowing f xs = Inl e'"
  by (induction xs) (auto split: sum.splits)

lemma savedSnapshot_missing:
  "storage (''scitok-saved-'' @ i) = None \<Longrightarrow> savedSnapshot parse storage i = Inr None"
  by (simp add: savedSnapshot_def)

lemma loadPreferences_missing:
  "localStorage st ''scitok-preferences'' = None \<or> localStorage st ''scitok-preferences'' = Some []
   \<Longrightarrow> loadPreferences parse st = Inr st"
  by (auto simp: loadPreferences_def)

lemma loadPreferences_initial:
  "storage ''scitok-preferences'' = None
   \<Longrightarrow> \<exists>st'. loadPreferences parse (initialApp storage) = Inr st'
           \<and> userPreferences st' = defaultPreferences"
  by (simp add: loadPreferences_def initialApp_def)

lemma loadPreferences_present:
  "localStorage st ''scitok-preferences'' = Some saved \<and> saved \<noteq> []
   \<Longrightarrow> loadPreferences parse st
          = (case parse saved of Inl e \<Rightarrow> Inl e | Inr prefs \<Rightarrow> Inr (st\<lparr>userPreferences := prefs\<rparr>))"
  by (simp add: loadPreferences_def)

lemma getSavedArticles_Inr:
  assumes "\<forall>i \<in> set (savedArticles (userPreferences st)).
          \<exists>v. savedSnapshot parseArticle (localStorage st) i = Inr v"
  shows "getSavedArticles parseArticle st
          = Inr (filterBoolean
              (map (\<lambda>i. projr (savedSnapshot parseArticle (localStorage st) i))
                 (savedArticles (userPreferences st))))"
  by (simp add: getSavedArticles_def mapThrowing_Inr [OF assms])

lemma getSavedArticles_Inl:
  assumes h: "i \<in> set (savedArticles (userPreferences st))
        \<and> localStorage st (''scitok-saved-'' @ i) = Some saved \<and> saved \<noteq> []
        \<and> parseArticle saved = Inl e"
  shows "\<exists>e'. getSavedArticles parseArticle st = Inl e'"
proof -
  from h have mem: "i \<in> set (savedArticles (userPreferences st))"
    and sv: "localStorage st (''scitok-saved-'' @ i) = Some saved"
    and ne: "saved \<noteq> []" and bad: "parseArticle saved = Inl e"
    by blast+
  from sv ne bad have "savedSnapshot parseArticle (localStorage st) i = Inl e"
    unfolding savedSnapshot_def by simp
  with mem have "\<exists>e'. mapThrowing (savedSnapshot parseArticle (localStorage st))
      (savedArticles (userPreferences st)) = Inl e'"
    by (rule mapThrowing_Inl)
  then show ?thesis unfolding getSavedArticles_def by auto
qed

text \<open>
  C3, evaluated on a storage whose preferences entry, and whose snapshot of the saved id
  \<open>p1\<close>, is the text \<open>{oops\<close>, on which \<open>JSON.parse\<close> throws: loading the preferences throws,
  and so does the reconstruction of the saved list.
\<close>

theorem storage_unparsable:
  "localStorage ex_bad_prefs ''scitok-preferences'' = Some ''{oops''
   \<and> (ex_reject ''{oops'' :: js_error + UserPreferences) = Inl SyntaxError
   \<and> loadPreferences ex_reject ex_bad_prefs = Inl SyntaxError
   \<and> savedArticles (userPreferences ex_bad_snapshot) = [''p1'']
   \<and> localStorage ex_bad_snapshot ''scitok-saved-p1'' = Some ''{oops''
   \<and> (ex_reject ''{oops'' :: js_error + Article option) = Inl SyntaxError
   \<and> getSavedArticles ex_reject ex_bad_snapshot = Inl SyntaxError"
  by (simp add: ex_bad_prefs_def ex_bad_snapshot_def ex_reject_def initialApp_def
      loadPreferences_def getSavedArticles_def savedSnapshot_def)

text \<open>
  C3, amended. Loading the preferences leaves the state, and so the default all-empty record
  of the initial state, as it is when the stored value is missing or empty, without throwing;
  a stored value that is present goes to \<open>JSON.parse\<close>, whose result is adopted and whose
  \<open>SyntaxError\<close> is not caught. Reconstructing the saved list skips every id whose snapshot is
  missing and, when no snapshot makes \<open>JSON.parse\<close> throw, returns the truthy parsed values
  in order; a snapshot on which \<open>JSON.parse\<close> throws makes the reconstruction throw.
\<close>

theorem storage_reads:
  "((localStorage st ''scitok-preferences'' = None \<or> localStorage st ''scitok-preferences'' = Some [])
      \<longrightarrow> loadPreferences parse st = Inr st)
   \<and> (storage ''scitok-preferences'' = None \<longrightarrow>
        (\<exists>st'. loadPreferences parse (initialApp storage) = Inr st'
           \<and> userPreferences st' = defaultPreferences))
   \<and> (localStorage st ''scitok-preferences'' = Some saved \<and> saved \<noteq> [] \<longrightarrow>
        loadPreferences parse st
          = (case parse saved of Inl e \<Rightarrow> Inl e | Inr prefs \<Rightarrow> Inr (st\<lparr>userPreferences := prefs\<rparr>)))
   \<and> ((\<forall>i \<in> set (savedArticles (userPreferences st)).
          \<exists>v. savedSnapshot parseArticle (localStorage st) i = Inr v) \<longrightarrow>
        getSavedArticles parseArticle st
          = Inr (filterBoolean
              (map (\<lambda>i. projr (savedSnapshot parseArticle (localStorage st) i))
                 (savedArticles (userPreferences st)))))
   \<and> (localStorage st (''scitok-saved-'' @ i) = None \<longrightarrow>
        savedSnapshot parseArticle (localStorage st) i = Inr None)
   \<and> (i \<in> set (savedArticles (userPreferences st))
        \<and> localStorage st (''scitok-saved-'' @ i) = Some snapshot \<and> snapshot \<noteq> []
        \<and> parseArticle snapshot = Inl e \<longrightarrow>
        (\<exists>e'. getSavedArticles parseArticle st = Inl e'))"
proof (intro conjI impI)
  show "loadPreferences parse st = Inr st"
    if "localStorage st ''scitok-preferences'' = None \<or> localStorage st ''scitok-preferences'' = Some []"
    using that by (rule loadPreferences_missing)
  show "\<exists>st'. loadPreferences parse (initialApp storage) = Inr st'
           \<and> userPreferences st' = defaultPreferences"
    if "storage ''scitok-preferences'' = None"
    using that by (rule loadPreferences_initial)
  show "loadPreferences parse st
          = (case parse saved of Inl e \<Rightarrow> Inl e | Inr prefs \<Rightarrow> Inr (st\<lparr>userPreferences := prefs\<rparr>))"
    if "localStorage st ''scitok-preferences'' = Some saved \<and> saved \<noteq> []"
    using that by (rule loadPreferences_present)
  show "getSavedArticles parseArticle st
          = Inr (filterBoolean
              (map (\<lambda>i. projr (savedSnapshot parseArticle (localStorage st) i))
                 (savedArticles (userPreferences st))))"
    if "\<forall>i \<in> set (savedArticles (userPreferences st)).
          \<exists>v. savedSnapshot parseArticle (localStorage st) i = Inr v"
    using that by (rule getSavedArticles_Inr)
  show "savedSnapshot parseArticle (localStorage st) i = Inr None"
    if "localStorage st (''scitok-saved-'' @ i) = None"
    using that by (rule savedSnapshot_missing)
  show "\<exists>e'. getSavedArticles parseArticle st = Inl e'"
    if "i \<in> set (savedArticles (userPreferences st))
        \<and> localStorage st (''scitok-saved-'' @ i) = Some snapshot \<and> snapshot \<noteq> []
        \<and> parseArticle snapshot = Inl e"
    using that by (rule getSavedArticles_Inl)
qed

theorem storage_reads_witness:
  "localStorage ex_missing_snapshot ''scitok-preferences'' = None
   \<and> loadPreferences (ex_reject :: string \<Rightarrow> js_error + UserPreferences) ex_missing_snapshot
       = Inr ex_missing_snapshot
   \<and> savedArticles (userPreferences ex_missing_snapshot) = [''p1'']
   \<and> savedSnapshot (ex_reject :: string \<Rightarrow> js_error + Article option)
         (localStorage ex_missing_snapshot) ''p1'' = Inr None
   \<and> getSavedArticles (ex_reject :: string \<Rightarrow> js_error + Article option) ex_missing_snapshot = Inr []
   \<and> localStorage ex_bad_prefs ''scitok-preferences'' = Some ''{oops''
   \<and> loadPreferences (ex_reject :: string \<Rightarrow> js_error + UserPreferences) ex_bad_prefs
       = Inl SyntaxError
   \<and> ''p1'' \<in> set (savedArticles (userPreferences ex_bad_snapshot))
   \<and> localStorage ex_bad_snapshot (''scitok-saved-'' @ ''p1'') = Some ''{oops''
   \<and> (\<exists>e'. getSavedArticles (ex_reject :: string \<Rightarrow> js_error + Article option) ex_bad_snapshot
         = Inl e')"
proof -
  let ?parse = "ex_reject :: string \<Rightarrow> js_error + UserPreferences"
  let ?parseArticle = "ex_reject :: string \<Rightarrow> js_error + Article option"
  have none: "localStorage ex_missing_snapshot ''scitok-preferences'' = None"
    and nosnap: "localStorage ex_missing_snapshot (''scitok-saved-'' @ ''p1'') = None"
    and ids: "savedArticles (userPreferences ex_missing_snapshot) = [''p1'']"
    by (simp_all add: ex_missing_snapshot_def initialApp_def)
  have badprefs: "localStorage ex_bad_prefs ''scitok-preferences'' = Some ''{oops''"
    by (simp add: ex_bad_prefs_def initialApp_def)
  have badsnap: "''p1'' \<in> set (savedArticles (userPreferences ex_bad_snapshot))"
    "localStorage ex_bad_snapshot (''scitok-saved-'' @ ''p1'') = Some ''{oops''"
    by (simp_all add: ex_bad_snapshot_def initialApp_def)
  have rej: "?parse ''{oops'' = Inl SyntaxError" "?parseArticle ''{oops'' = Inl SyntaxError"
    by (simp_all add: ex_reject_def)
  note a = storage_reads [of ex_missing_snapshot ?parse Map.empty "''{oops''" ?parseArticle
      "''p1''" "''{oops''" SyntaxError]
  note b = storage_reads [of ex_bad_prefs ?parse Map.empty "''{oops''" ?parseArticle
      "''p1''" "''{oops''" SyntaxError]
  note c = storage_reads [of ex_bad_snapshot ?parse Map.empty "''{oops''" ?parseArticle
      "''p1''" "''{oops''" SyntaxError]
  from a none have load: "loadPreferences ?parse ex_missing_snapshot = Inr ex_missing_snapshot"
    by blast
  from a nosnap
  have snap: "savedSnapshot ?parseArticle (localStorage ex_missing_snapshot) ''p1'' = Inr None"
    by blast
  with ids
  have all: "\<forall>i \<in> set (savedArticles (userPreferences ex_missing_snapshot)).
         \<exists>v. savedSnapshot ?parseArticle (localStorage ex_missing_snapshot) i = Inr v"
    by simp
  with a have "getSavedArticles ?parseArticle ex_missing_snapshot
      = Inr (filterBoolean
              (map (\<lambda>i. projr (savedSnapshot ?parseArticle (localStorage ex_missing_snapshot) i))
                 (savedArticles (userPreferences ex_missing_snapshot))))"
    by blast
  with ids snap have saved: "getSavedArticles ?parseArticle ex_missing_snapshot = Inr []"
    by simp
  from b badprefs rej(1)
  have thrown: "loadPreferences ?parse ex_bad_prefs = Inl SyntaxError"
    by simp
  from c badsnap rej(2)
  have thrown2: "\<exists>e'. getSavedArticles ?parseArticle ex_bad_snapshot = Inl e'"
    by blast
  from none load ids snap saved badprefs thrown badsnap thrown2 show ?thesis
    by blast
qed

end
